theory Spec2Isabelle
  imports Main "HOL-Library.Word"
begin

section \<open>The WLAN Connection Manager (wlan.c): data model\<close>

text \<open>
  The embedding follows the build of \<^verbatim>\<open>wlan.c\<close> in which \<^verbatim>\<open>CONFIG_WPA_SUPP\<close> is not
  defined (so \<^verbatim>\<open>do_connect\<close> exists and \<^verbatim>\<open>WLAN_RESCAN_LIMIT\<close> is 5), \<^verbatim>\<open>CONFIG_IPV6\<close> is
  defined, and \<^verbatim>\<open>CONFIG_HOST_SLEEP\<close>, \<^verbatim>\<open>CONFIG_OWE\<close>, \<^verbatim>\<open>CONFIG_11K\<close>, \<^verbatim>\<open>CONFIG_11V\<close>,
  \<^verbatim>\<open>CONFIG_11R\<close>, \<^verbatim>\<open>CONFIG_ROAMING\<close>, \<^verbatim>\<open>CONFIG_MBO\<close>, \<^verbatim>\<open>CONFIG_5GHz_SUPPORT\<close> and
  \<^verbatim>\<open>CONFIG_WIFI_CAPA\<close> are not.

  The module-level struct \<^verbatim>\<open>wlan\<close> becomes the record \<open>wlan\<close>, passed explicitly. Calls
  into the firmware driver, the IP stack and the OS are not part of the file: what they
  return is read from a record \<open>driver\<close>, and the calls the connection manager makes are
  appended to the field \<open>trace\<close> of the state, in program order.
\<close>

subsection \<open>Enumerations\<close>

datatype cm_sta_state =
    CM_STA_INITIALIZING
  | CM_STA_IDLE
  | CM_STA_SCANNING
  | CM_STA_SCANNING_USER
  | CM_STA_ASSOCIATING
  | CM_STA_ASSOCIATED
  | CM_STA_REQUESTING_ADDRESS
  | CM_STA_OBTAINING_ADDRESS
  | CM_STA_CONNECTED

text \<open>The numeric value of the enumerator, for the comparisons \<^verbatim>\<open><\<close> and \<^verbatim>\<open>>=\<close> of the source.\<close>

fun sta_ord :: "cm_sta_state \<Rightarrow> nat" where
  "sta_ord CM_STA_INITIALIZING = 0"
| "sta_ord CM_STA_IDLE = 1"
| "sta_ord CM_STA_SCANNING = 2"
| "sta_ord CM_STA_SCANNING_USER = 3"
| "sta_ord CM_STA_ASSOCIATING = 4"
| "sta_ord CM_STA_ASSOCIATED = 5"
| "sta_ord CM_STA_REQUESTING_ADDRESS = 6"
| "sta_ord CM_STA_OBTAINING_ADDRESS = 7"
| "sta_ord CM_STA_CONNECTED = 8"

datatype cm_uap_state =
    CM_UAP_INITIALIZING
  | CM_UAP_CONFIGURED
  | CM_UAP_STARTED
  | CM_UAP_IP_UP

fun uap_ord :: "cm_uap_state \<Rightarrow> nat" where
  "uap_ord CM_UAP_INITIALIZING = 0"
| "uap_ord CM_UAP_CONFIGURED = 1"
| "uap_ord CM_UAP_STARTED = 2"
| "uap_ord CM_UAP_IP_UP = 3"

datatype wlan_ieeeps_event =
    IEEEPS_EVENT_ENTER
  | IEEEPS_EVENT_ENABLE
  | IEEEPS_EVENT_ENABLE_DONE
  | IEEEPS_EVENT_AWAKE
  | IEEEPS_EVENT_SLEEP
  | IEEEPS_EVENT_SLP_CFM
  | IEEEPS_EVENT_DISABLE
  | IEEEPS_EVENT_DISABLE_DONE

datatype wlan_ieeeps_state =
    IEEEPS_INIT
  | IEEEPS_CONFIGURING
  | IEEEPS_AWAKE
  | IEEEPS_PRE_SLEEP
  | IEEEPS_SLEEP
  | IEEEPS_PRE_DISABLE
  | IEEEPS_DISABLING

datatype wlan_deepsleepps_state =
    DEEPSLEEPPS_INIT
  | DEEPSLEEPPS_CONFIGURING
  | DEEPSLEEPPS_AWAKE
  | DEEPSLEEPPS_PRE_SLEEP
  | DEEPSLEEPPS_SLEEP
  | DEEPSLEEPPS_PRE_DISABLE
  | DEEPSLEEPPS_DISABLING

datatype wlan_deepsleepps_event =
    DEEPSLEEPPS_EVENT_ENTER
  | DEEPSLEEPPS_EVENT_ENABLE
  | DEEPSLEEPPS_EVENT_ENABLE_DONE
  | DEEPSLEEPPS_EVENT_AWAKE
  | DEEPSLEEPPS_EVENT_SLEEP
  | DEEPSLEEPPS_EVENT_SLP_CFM
  | DEEPSLEEPPS_EVENT_DISABLE
  | DEEPSLEEPPS_EVENT_DISABLE_DONE

datatype wlan_ps_state = PS_STATE_AWAKE | PS_STATE_PRE_SLEEP | PS_STATE_SLEEP_CFM | PS_STATE_SLEEP

datatype wlcmgr_status_t =
    WLCMGR_INACTIVE
  | WLCMGR_INIT_DONE
  | WLCMGR_ACTIVATED
  | WLCMGR_THREAD_STOPPED
  | WLCMGR_THREAD_DELETED

text \<open>\<^verbatim>\<open>enum wlan_security_type\<close> of wlan.h, with the enumerators of this build.\<close>

datatype wlan_security_type =
    WLAN_SECURITY_NONE
  | WLAN_SECURITY_WEP_OPEN
  | WLAN_SECURITY_WEP_SHARED
  | WLAN_SECURITY_WPA
  | WLAN_SECURITY_WPA2
  | WLAN_SECURITY_WPA2_SHA256
  | WLAN_SECURITY_WPA_WPA2_MIXED
  | WLAN_SECURITY_WILDCARD
  | WLAN_SECURITY_WPA3_SAE
  | WLAN_SECURITY_WPA2_WPA3_SAE_MIXED

text \<open>
  \<^verbatim>\<open>enum wlan_bss_type\<close> and \<^verbatim>\<open>enum wlan_bss_role\<close> are declared in wifi.h, which is not
  part of the sources; the code names the enumerators below.
\<close>

datatype wlan_bss_type = WLAN_BSS_TYPE_STA | WLAN_BSS_TYPE_UAP | WLAN_BSS_TYPE_ANY

datatype wlan_bss_role = WLAN_BSS_ROLE_STA | WLAN_BSS_ROLE_UAP | WLAN_BSS_ROLE_ANY

datatype address_types = ADDR_TYPE_STATIC | ADDR_TYPE_DHCP | ADDR_TYPE_LLA

datatype wlan_event_reason =
    WLAN_REASON_SUCCESS
  | WLAN_REASON_AUTH_SUCCESS
  | WLAN_REASON_CONNECT_FAILED
  | WLAN_REASON_NETWORK_NOT_FOUND
  | WLAN_REASON_BGSCAN_NETWORK_NOT_FOUND
  | WLAN_REASON_NETWORK_AUTH_FAILED
  | WLAN_REASON_ADDRESS_SUCCESS
  | WLAN_REASON_ADDRESS_FAILED
  | WLAN_REASON_LINK_LOST
  | WLAN_REASON_CHAN_SWITCH
  | WLAN_REASON_WPS_DISCONNECT
  | WLAN_REASON_USER_DISCONNECT
  | WLAN_REASON_INITIALIZED
  | WLAN_REASON_INITIALIZATION_FAILED
  | WLAN_REASON_PS_ENTER
  | WLAN_REASON_PS_EXIT
  | WLAN_REASON_UAP_SUCCESS
  | WLAN_REASON_UAP_CLIENT_ASSOC
  | WLAN_REASON_UAP_CLIENT_CONN
  | WLAN_REASON_UAP_CLIENT_DISSOC
  | WLAN_REASON_UAP_START_FAILED
  | WLAN_REASON_UAP_STOP_FAILED
  | WLAN_REASON_UAP_STOPPED
  | WLAN_REASON_RSSI_LOW

text \<open>
  The integer results of the API. \<open>E_INVAL\<close>, \<open>E_NOMEM\<close> and \<open>E_FAIL\<close> stand for
  \<^verbatim>\<open>-WM_E_INVAL\<close>, \<^verbatim>\<open>-WM_E_NOMEM\<close> and \<^verbatim>\<open>-WM_FAIL\<close> (wmerrno.h is not part of the
  sources, so the codes stay symbolic).
\<close>

datatype wm_ret =
    WM_SUCCESS
  | E_INVAL
  | E_NOMEM
  | E_FAIL
  | WLAN_ERROR_STATE
  | WLAN_ERROR_ACTION

subsection \<open>Constants of wlan.h\<close>

definition WLAN_RESCAN_LIMIT :: nat where "WLAN_RESCAN_LIMIT = 5"
definition WLAN_RECONNECT_LIMIT :: nat where "WLAN_RECONNECT_LIMIT = 5"
definition WLAN_NETWORK_NAME_MIN_LENGTH :: nat where "WLAN_NETWORK_NAME_MIN_LENGTH = 1"
definition WLAN_NETWORK_NAME_MAX_LENGTH :: nat where "WLAN_NETWORK_NAME_MAX_LENGTH = 32"
definition WLAN_PSK_MIN_LENGTH :: nat where "WLAN_PSK_MIN_LENGTH = 8"
definition WLAN_PSK_MAX_LENGTH :: nat where "WLAN_PSK_MAX_LENGTH = 65"
definition WLAN_PASSWORD_MIN_LENGTH :: nat where "WLAN_PASSWORD_MIN_LENGTH = 8"
definition WLAN_PASSWORD_MAX_LENGTH :: nat where "WLAN_PASSWORD_MAX_LENGTH = 255"

subsection \<open>Network profiles and scan results\<close>

text \<open>
  \<^verbatim>\<open>struct wlan_network_security\<close>: \<open>sec_type\<close> is the field \<^verbatim>\<open>type\<close>; \<open>psk\<close> is the
  buffer \<^verbatim>\<open>char psk[65]\<close> and \<open>psk_len\<close> the \<^verbatim>\<open>uint8_t\<close> beside it.
\<close>

record wlan_network_security =
  sec_type :: wlan_security_type
  psk :: string
  psk_len :: "8 word"
  password_len :: nat
  mfpc :: bool
  mfpr :: bool
  pmk_valid :: bool
  is_pmf_required :: bool

text \<open>
  \<^verbatim>\<open>struct wlan_network\<close>. The character arrays \<^verbatim>\<open>name\<close> and \<^verbatim>\<open>ssid\<close> are C strings: the
  list holds the characters before the terminating NUL, so \<^verbatim>\<open>name[0] == '\0'\<close> is
  \<open>name n = []\<close> and \<^verbatim>\<open>strlen\<close> is \<open>length\<close>. \<open>net_type\<close> is the field \<^verbatim>\<open>type\<close>. The cipher
  suite, beacon and DTIM fields are written by the code but never read by a decision
  modelled here, and are left out.
\<close>

record wlan_network =
  name :: string
  ssid :: string
  bssid :: "8 word list"
  channel :: nat
  acs_band :: nat
  net_type :: wlan_bss_type
  role :: wlan_bss_role
  security :: wlan_network_security
  ipv4_addr_type :: address_types
  ipv4_address :: "32 word"
  ipv4_gw :: "32 word"
  ssid_specific :: bool
  bssid_specific :: bool
  channel_specific :: bool
  security_specific :: bool
  dot11n :: bool

text \<open>
  \<^verbatim>\<open>struct wifi_scan_result2\<close> is declared in wifi.h (not part of the sources); the fields
  are those the code reads. \<open>RSSI\<close> is the value of the field after C's integer
  promotion, which is what the comparison in \<^verbatim>\<open>handle_scan_results\<close> sees. \<open>res_ssid\<close> is
  the SSID buffer and \<open>ssid_len\<close> the length beside it.
\<close>

record wifi_scan_result2 =
  res_bssid :: "8 word list"
  res_ssid :: string
  ssid_len :: nat
  Channel :: nat
  RSSI :: int
  wepStatic :: bool
  wpa :: bool
  wpa2 :: bool
  wpa2_sha256 :: bool
  wpa3_sae :: bool
  wpa_ucstCipher_tkip :: bool
  phtcap_ie_present :: bool
  res_is_pmf_required :: bool

subsection \<open>Calls out of the module\<close>

text \<open>The calls the connection manager makes, as they appear in \<open>trace\<close>.\<close>

datatype action =
    CONNECTION_EVENT wlan_event_reason
  | OS_SEMAPHORE_PUT_SCAN_LOCK
  | WIFI_SEND_SCAN_CMD bool
  | WLCMGR_SEND_MSG_SCAN_RESULT_FAILURE
  | SEND_USER_REQUEST_DISCONNECT
  | SEND_SLEEP_CONFIRM_COMMAND wlan_bss_type
  | WIFI_SEND_HS_CFG_CMD wlan_bss_type
  | WIFI_ENTER_IEEE_POWER_SAVE
  | WIFI_EXIT_IEEE_POWER_SAVE
  | WIFI_ENTER_DEEPSLEEP_POWER_SAVE
  | WIFI_EXIT_DEEPSLEEP_POWER_SAVE
  | WIFI_DEAUTHENTICATE "8 word list"
  | WIFI_SET_PMFCFG bool bool
  | WIFI_SEND_ADD_WPA_PMK
  | WIFI_SEND_ADD_WPA_PSK
  | WIFI_SEND_ADD_WPA3_PASSWORD
  | LOAD_WEP_KEY
  | WIFI_SET_KEY
  | WRAPPER_WIFI_ASSOC "8 word list" wlan_security_type
  | WIFI_SEND_CLEAR_WPA_PSK
  | NET_STOP_DHCP_TIMER
  | NET_INTERFACE_DHCP_STOP
  | NET_INTERFACE_DOWN
  | NET_CONFIGURE_ADDRESS
  | NET_GET_IF_ADDR
  | WIFI_UAP_START
  | WIFI_UAP_STOP
  | SCAN_CB
  | OS_THREAD_SELF_COMPLETE

text \<open>
  What the callees return. Each field is the outcome of the call named in its comment;
  \<open>True\<close> for a status means \<^verbatim>\<open>WM_SUCCESS\<close>.
\<close>

record driver =
  scan_cmd_ok :: bool  \<comment> \<open>\<^verbatim>\<open>wifi_send_scan_cmd\<close>\<close>
  scan_result_count :: "nat option"  \<comment> \<open>\<^verbatim>\<open>wifi_get_scan_result_count\<close>, \<open>None\<close> on failure\<close>
  scan_results :: "wifi_scan_result2 option list"  \<comment> \<open>\<^verbatim>\<open>wifi_get_scan_result\<close> per index\<close>
  chan_allowed :: "nat \<Rightarrow> bool"  \<comment> \<open>\<^verbatim>\<open>wifi_11d_is_channel_allowed\<close>\<close>
  pmfcfg :: "bool \<times> bool"  \<comment> \<open>\<^verbatim>\<open>wlan_get_pmfcfg\<close>: mfpc, mfpr\<close>
  hs_cfg_cmd_ok :: bool  \<comment> \<open>\<^verbatim>\<open>wifi_send_hs_cfg_cmd\<close>\<close>
  wakeup_map :: "32 word \<Rightarrow> 32 word"  \<comment> \<open>\<^verbatim>\<open>wlan_map_to_wifi_wakeup_condtions\<close>\<close>
  mlan_handle :: bool  \<comment> \<open>\<^verbatim>\<open>net_get_mlan_handle\<close> is not NULL\<close>
  net_configure_address_ok :: bool  \<comment> \<open>\<^verbatim>\<open>net_configure_address\<close>\<close>
  clear_wpa_psk_ok :: bool  \<comment> \<open>\<^verbatim>\<open>wifi_send_clear_wpa_psk\<close>\<close>
  add_wpa_key_ok :: bool  \<comment> \<open>\<^verbatim>\<open>wifi_send_add_wpa_pmk/psk/wpa3_password\<close>\<close>
  load_wep_key_ok :: bool  \<comment> \<open>\<^verbatim>\<open>load_wep_key\<close>\<close>
  set_key_ok :: bool  \<comment> \<open>\<^verbatim>\<open>wifi_set_key\<close>\<close>
  assoc_ok :: bool  \<comment> \<open>\<^verbatim>\<open>wrapper_wifi_assoc\<close>\<close>
  uap_start_ok :: bool  \<comment> \<open>\<^verbatim>\<open>wifi_uap_start\<close>\<close>
  uap_stop_ok :: bool  \<comment> \<open>\<^verbatim>\<open>wifi_uap_stop\<close>\<close>
  active_chan_list :: "nat list"  \<comment> \<open>\<^verbatim>\<open>wifi_get_active_channel_list\<close>\<close>
  uap_default_channel :: nat  \<comment> \<open>the constant \<^verbatim>\<open>UAP_DEFAULT_CHANNEL\<close>\<close>

subsection \<open>The state of the connection manager\<close>

text \<open>
  The fields of the static struct \<^verbatim>\<open>wlan\<close> that the modelled functions touch, the static
  flag \<^verbatim>\<open>g_req_sl_confirm\<close>, the driver's transfer-pending flag
  (\<^verbatim>\<open>wifi_get_xfer_pending\<close> / \<^verbatim>\<open>wifi_set_xfer_pending\<close>) and the trace of calls.
  \<open>scan_count\<close>, \<open>reassoc_count\<close> and \<open>num_networks\<close> are \<^verbatim>\<open>unsigned int\<close>.
\<close>

record wlan =
  is_scan_lock :: bool
  sta_state :: cm_sta_state
  sta_ipv4_state :: cm_sta_state
  sta_ipv6_state :: cm_sta_state
  sta_return_to :: cm_sta_state
  uap_state :: cm_uap_state
  uap_mac :: "8 word list"
  scan_cb :: bool
  networks :: "wlan_network list"
  cur_network_idx :: int
  cur_uap_network_idx :: int
  num_networks :: "32 word"
  scan_count :: "32 word"
  running :: bool
  stop_request :: bool
  status :: wlcmgr_status_t
  cm_ps_state :: wlan_ps_state
  ieeeps_state :: wlan_ieeeps_state
  ieeeps_prev_state :: wlan_ieeeps_state
  deepsleepps_state :: wlan_deepsleepps_state
  connect_wakelock_taken :: bool
  assoc_paused :: bool
  pending_assoc_request :: bool
  reassoc_control :: bool
  reassoc_request :: bool
  reassoc_count :: "32 word"
  hs_configured :: bool
  hs_wakeup_condition :: "32 word"
  hidden_scan_on :: bool
  same_ess :: bool
  roam_reassoc :: bool
  g_req_sl_confirm :: bool
  xfer_pending :: bool
  trace :: "action list"

definition emit :: "action \<Rightarrow> wlan \<Rightarrow> wlan" where
  "emit a w = w\<lparr>trace := trace w @ [a]\<rparr>"

text \<open>\<^verbatim>\<open>wlan.networks[i]\<close>; the index is in range in every theorem that reads it.\<close>

definition net_at :: "wlan \<Rightarrow> int \<Rightarrow> wlan_network" where
  "net_at w i = networks w ! nat i"

definition set_net :: "int \<Rightarrow> wlan_network \<Rightarrow> wlan \<Rightarrow> wlan" where
  "set_net i n w = w\<lparr>networks := (networks w)[nat i := n]\<rparr>"

section \<open>Utility functions\<close>

definition is_user_scanning :: "wlan \<Rightarrow> bool" where
  "is_user_scanning w = (sta_state w = CM_STA_SCANNING_USER)"

definition is_state :: "wlan \<Rightarrow> cm_sta_state \<Rightarrow> bool" where
  "is_state w state =
     (if is_user_scanning w then sta_return_to w = state else sta_state w = state)"

definition is_running :: "wlan \<Rightarrow> bool" where
  "is_running w = (running w \<and> sta_ord (sta_state w) \<ge> sta_ord CM_STA_IDLE)"

definition is_uap_state :: "wlan \<Rightarrow> cm_uap_state \<Rightarrow> bool" where
  "is_uap_state w state = (uap_state w = state)"

definition is_sta_connecting :: "wlan \<Rightarrow> bool" where
  "is_sta_connecting w =
     (sta_ord (sta_state w) > sta_ord CM_STA_ASSOCIATING \<and>
      sta_ord (sta_state w) \<le> sta_ord CM_STA_CONNECTED)"

definition is_scanning_allowed :: "wlan \<Rightarrow> bool" where
  "is_scanning_allowed w = (is_state w CM_STA_IDLE \<or> is_state w CM_STA_CONNECTED)"

definition is_uap_started :: "wlan \<Rightarrow> bool" where
  "is_uap_started w = is_uap_state w CM_UAP_IP_UP"

definition is_sta_connected :: "wlan \<Rightarrow> bool" where
  "is_sta_connected w = (sta_state w = CM_STA_CONNECTED)"

text \<open>The argument is the six-byte array \<^verbatim>\<open>bssid\<close>.\<close>

definition is_bssid_any :: "8 word list \<Rightarrow> bool" where
  "is_bssid_any b =
     (b ! 0 = 0 \<and> b ! 1 = 0 \<and> b ! 2 = 0 \<and> b ! 3 = 0 \<and> b ! 4 = 0 \<and> b ! 5 = 0)"

text \<open>
  \<^verbatim>\<open>strncmp(a, b, n) == 0\<close> on C strings held as lists without the NUL: the first \<open>n\<close>
  characters agree, a shorter string ending where the other ends.
\<close>

definition strncmp_eq :: "string \<Rightarrow> string \<Rightarrow> nat \<Rightarrow> bool" where
  "strncmp_eq a b n = (take n a = take n b)"

section \<open>The profile store\<close>

subsection \<open>Key validation\<close>

text \<open>The test of \<^verbatim>\<open>isHexNumber\<close> that makes it return false on a character.\<close>

definition not_hex_digit :: "char \<Rightarrow> bool" where
  "not_hex_digit c =
     (((of_char (CHR ''0'') :: nat) > of_char c \<or> (of_char (CHR ''9'') :: nat) < of_char c) \<and>
      ((of_char (CHR ''A'') :: nat) > of_char c \<or> (of_char (CHR ''F'') :: nat) < of_char c) \<and>
      ((of_char (CHR ''a'') :: nat) > of_char c \<or> (of_char (CHR ''f'') :: nat) < of_char c))"

text \<open>
  \<^verbatim>\<open>isHexNumber(str, len)\<close> reads \<^verbatim>\<open>str[0 .. len-1]\<close>. It is only called on the 65-byte
  buffer \<^verbatim>\<open>psk\<close> with \<open>len = 64\<close>, so the read stays inside the buffer.
\<close>

fun isHexNumber :: "string \<Rightarrow> nat \<Rightarrow> bool" where
  "isHexNumber [] len = True"
| "isHexNumber (c # cs) len =
     (case len of 0 \<Rightarrow> True
      | Suc m \<Rightarrow> if not_hex_digit c then False else isHexNumber cs m)"

definition wlan_is_key_valid :: "wlan_network \<Rightarrow> bool" where
  "wlan_is_key_valid network =
     (let sec = security network; type = sec_type sec in
      if type = WLAN_SECURITY_WPA \<or> type = WLAN_SECURITY_WPA2 \<or>
         type = WLAN_SECURITY_WPA_WPA2_MIXED \<or> type = WLAN_SECURITY_WPA2_SHA256 then
        (if unat (psk_len sec) < WLAN_PSK_MIN_LENGTH \<or> unat (psk_len sec) \<ge> WLAN_PSK_MAX_LENGTH
         then False
         else if unat (psk_len sec) = WLAN_PSK_MAX_LENGTH - 1 \<and>
                 isHexNumber (psk sec) (unat (psk_len sec)) = False
         then False
         else True)
      else if type = WLAN_SECURITY_WPA2_WPA3_SAE_MIXED then
        (if unat (psk_len sec) < WLAN_PSK_MIN_LENGTH \<or> unat (psk_len sec) \<ge> WLAN_PSK_MAX_LENGTH
         then False
         else if unat (psk_len sec) = WLAN_PSK_MAX_LENGTH - 1 \<and>
                 isHexNumber (psk sec) (unat (psk_len sec)) = False
         then False
         else if password_len sec < WLAN_PASSWORD_MIN_LENGTH \<or>
                 password_len sec > WLAN_PASSWORD_MAX_LENGTH
         then False
         else True)
      else if type = WLAN_SECURITY_WPA3_SAE then
        (if password_len sec < WLAN_PASSWORD_MIN_LENGTH \<or>
            password_len sec > WLAN_PASSWORD_MAX_LENGTH
         then False
         else True)
      else if type = WLAN_SECURITY_NONE \<or> type = WLAN_SECURITY_WILDCARD then True
      else if type = WLAN_SECURITY_WEP_OPEN \<or> type = WLAN_SECURITY_WEP_SHARED then False
      else False)"

subsection \<open>Adding a profile\<close>

text \<open>
  The slot search of \<^verbatim>\<open>wlan_add_network\<close>: every occupied slot is compared with the new
  name (a duplicate returns \<^verbatim>\<open>-WM_E_INVAL\<close> at once), and \<open>pos\<close> keeps the first free
  slot, \<open>-1\<close> while there is none.
\<close>

fun find_slot :: "wlan_network list \<Rightarrow> string \<Rightarrow> nat \<Rightarrow> int \<Rightarrow> wm_ret + int" where
  "find_slot [] nm i pos = Inr pos"
| "find_slot (s # rest) nm i pos =
     (if name s \<noteq> [] then
        (if length (name s) = length nm \<and> strncmp_eq (name s) nm (length nm) then Inl E_INVAL
         else find_slot rest nm (i + 1) pos)
      else if pos = - 1 then find_slot rest nm (i + 1) (int i)
      else find_slot rest nm (i + 1) pos)"

text \<open>
  The parameter checks at the head of \<^verbatim>\<open>wlan_add_network\<close> that come before the key
  check, in the order of the source: \<open>Some e\<close> is the early return of \<open>e\<close>, \<open>None\<close> means
  that all of them passed.
\<close>

definition profile_checks :: "wlan \<Rightarrow> wlan_network \<Rightarrow> wm_ret option" where
  "profile_checks w network =
     (if role network = WLAN_BSS_ROLE_STA \<and> is_running w \<and> \<not> is_state w CM_STA_IDLE \<and>
         \<not> is_state w CM_STA_ASSOCIATED \<and> \<not> is_state w CM_STA_CONNECTED
      then Some WLAN_ERROR_STATE
      else let len = length (name network) in
      if len < WLAN_NETWORK_NAME_MIN_LENGTH \<or> len \<ge> WLAN_NETWORK_NAME_MAX_LENGTH
      then Some E_INVAL
      else if ssid network = [] \<and> is_bssid_any (bssid network) then Some E_INVAL
      else if role network = WLAN_BSS_ROLE_UAP \<and> ipv4_gw network \<noteq> ipv4_address network
      then Some E_INVAL
      else if (role network = WLAN_BSS_ROLE_UAP \<or> role network = WLAN_BSS_ROLE_STA) \<and>
              (sec_type (security network) = WLAN_SECURITY_WPA2_SHA256 \<or>
               sec_type (security network) = WLAN_SECURITY_WPA2_WPA3_SAE_MIXED) \<and>
              \<not> mfpc (security network)
      then Some E_INVAL
      else if (role network = WLAN_BSS_ROLE_UAP \<or> role network = WLAN_BSS_ROLE_STA) \<and>
              sec_type (security network) = WLAN_SECURITY_WPA3_SAE \<and>
              (\<not> mfpc (security network) \<or> \<not> mfpr (security network))
      then Some E_INVAL
      else None)"

text \<open>
  The adjustments \<^verbatim>\<open>wlan_add_network\<close> makes to the caller's struct (\<^verbatim>\<open>type\<close>, \<^verbatim>\<open>dot11n\<close>)
  before it is copied into the slot.
\<close>

definition fix_type_and_caps :: "wlan_network \<Rightarrow> wlan_network" where
  "fix_type_and_caps network =
     (let network1 =
            (if net_type network = WLAN_BSS_TYPE_STA \<or> net_type network = WLAN_BSS_TYPE_ANY
             then (if role network = WLAN_BSS_ROLE_UAP
                   then network\<lparr>net_type := WLAN_BSS_TYPE_UAP\<rparr>
                   else if role network = WLAN_BSS_ROLE_STA
                   then network\<lparr>net_type := WLAN_BSS_TYPE_STA\<rparr>
                   else network)
             else network)
      in if role network1 = WLAN_BSS_ROLE_UAP then network1\<lparr>dot11n := True\<rparr> else network1)"

text \<open>
  The slot contents after the \<^verbatim>\<open>memcpy\<close> and the assignments to the private fields. The
  bit \<^verbatim>\<open>security_specific\<close> is set for every type but the wildcard, and is otherwise
  what the caller's struct held.
\<close>

definition slot_contents :: "wlan_network \<Rightarrow> wlan_network" where
  "slot_contents network =
     (let stored0 = network
            \<lparr>ssid_specific := (ssid network \<noteq> []),
             bssid_specific := (\<not> is_bssid_any (bssid network)),
             channel_specific := (channel network \<noteq> 0)\<rparr>;
          stored1 = (if channel_specific stored0 then stored0\<lparr>acs_band := 0\<rparr> else stored0)
      in if sec_type (security network) \<noteq> WLAN_SECURITY_WILDCARD
         then stored1\<lparr>security_specific := True\<rparr> else stored1)"

text \<open>
  \<^verbatim>\<open>wlan_add_network\<close>. The result pairs the return value with the state, since one
  failure path (\<^verbatim>\<open>WLAN_ERROR_ACTION\<close>) returns after the slot has been written.
\<close>

definition wlan_add_network :: "driver \<Rightarrow> wlan \<Rightarrow> wlan_network option \<Rightarrow> wm_ret \<times> wlan" where
  "wlan_add_network drv w arg =
     (case arg of None \<Rightarrow> (E_INVAL, w)
      | Some network \<Rightarrow>
        (case profile_checks w network of Some e \<Rightarrow> (e, w)
         | None \<Rightarrow>
           if wlan_is_key_valid network = False then (E_INVAL, w)
           else
             let network2 = fix_type_and_caps network in
             (case find_slot (networks w) (name network2) 0 (- 1) of
                Inl e \<Rightarrow> (e, w)
              | Inr pos \<Rightarrow>
                  if pos < 0 then (E_NOMEM, w)
                  else
                    let w1 = set_net pos (slot_contents network2) w in
                    if role network2 = WLAN_BSS_ROLE_STA \<and>
                       sec_type (security network2) \<noteq> WLAN_SECURITY_NONE \<and>
                       sec_type (security network2) \<noteq> WLAN_SECURITY_WEP_OPEN
                    then
                      (let w2 = emit WIFI_SEND_CLEAR_WPA_PSK w1 in
                       if \<not> clear_wpa_psk_ok drv then (WLAN_ERROR_ACTION, w2)
                       else (WM_SUCCESS, w2\<lparr>num_networks := num_networks w2 + 1\<rparr>))
                    else (WM_SUCCESS, w1\<lparr>num_networks := num_networks w1 + 1\<rparr>))))"

subsection \<open>Removing a profile\<close>

text \<open>
  The slot after \<^verbatim>\<open>memset(&wlan.networks[i], 0, sizeof(struct wlan_network))\<close>. The zero
  value of the two enumerations of wifi.h is taken to be their station enumerator.
\<close>

definition zero_network :: wlan_network where
  "zero_network =
     \<lparr>name = [], ssid = [], bssid = replicate 6 0, channel = 0, acs_band = 0,
      net_type = WLAN_BSS_TYPE_STA, role = WLAN_BSS_ROLE_STA,
      security = \<lparr>sec_type = WLAN_SECURITY_NONE, psk = replicate 65 (CHR 0x00), psk_len = 0,
                  password_len = 0, mfpc = False, mfpr = False, pmk_valid = False,
                  is_pmf_required = False\<rparr>,
      ipv4_addr_type = ADDR_TYPE_STATIC, ipv4_address = 0, ipv4_gw = 0,
      ssid_specific = False, bssid_specific = False, channel_specific = False,
      security_specific = False, dot11n = False\<rparr>"



definition wlan_get_network_count :: "wlan \<Rightarrow> 32 word" where
  "wlan_get_network_count w = num_networks w"

subsection \<open>The store as a whole\<close>

text \<open>
  A slot is occupied when its name is not empty. \<open>stored_names\<close> are the names of the
  occupied slots, \<open>count_profiles\<close> their number, and \<open>store_inv\<close> says that the array has
  its \<^verbatim>\<open>WLAN_MAX_KNOWN_NETWORKS\<close> slots and that no name occurs in two occupied slots.
\<close>

definition stored_names :: "wlan \<Rightarrow> string set" where
  "stored_names w = set (filter (\<lambda>s. s \<noteq> []) (map name (networks w)))"






section \<open>Connection-manager actions\<close>

subsection \<open>Matching a scan result\<close>

text \<open>
  The first \<open>n\<close> bytes of a character buffer read as a C string, and \<^verbatim>\<open>strncmp(a, b, n) != 0\<close>
  on two buffers.
\<close>

definition cstr :: "nat \<Rightarrow> string \<Rightarrow> string" where
  "cstr n s = takeWhile (\<lambda>c. c \<noteq> CHR 0x00) (take n s)"

definition strncmp_ne :: "string \<Rightarrow> string \<Rightarrow> nat \<Rightarrow> bool" where
  "strncmp_ne a b n = (cstr n a \<noteq> cstr n b)"

text \<open>
  \<^verbatim>\<open>security_profile_matches\<close> returns an \<^verbatim>\<open>int\<close> that its caller tests against zero;
  the model returns whether it is non-zero (\<^verbatim>\<open>WM_SUCCESS\<close> is 0).
\<close>

definition security_profile_matches :: "driver \<Rightarrow> wlan_network \<Rightarrow> wifi_scan_result2 \<Rightarrow> bool" where
  "security_profile_matches drv network res =
     (let type = sec_type (security network) in
      if type = WLAN_SECURITY_NONE then
        (if wepStatic res \<or> wpa2 res \<or> wpa res then False else True)
      else if type = WLAN_SECURITY_WEP_OPEN \<or> type = WLAN_SECURITY_WEP_SHARED then
        (if phtcap_ie_present res then False else wepStatic res)
      else if type = WLAN_SECURITY_WPA_WPA2_MIXED then (wpa res \<or> wpa2 res)
      else if type = WLAN_SECURITY_WPA2 then (wpa2 res \<or> wpa2_sha256 res)
      else if type = WLAN_SECURITY_WPA then
        (if wpa_ucstCipher_tkip res then \<not> wpa_ucstCipher_tkip res else wpa res)
      else if type = WLAN_SECURITY_WPA3_SAE \<or> type = WLAN_SECURITY_WPA2_WPA3_SAE_MIXED then
        (if \<not> fst (pmfcfg drv) \<and> \<not> snd (pmfcfg drv) then False
         else if type = WLAN_SECURITY_WPA3_SAE then wpa3_sae res
         else (wpa3_sae res \<or> wpa2 res))
      else False)"

text \<open>
  \<^verbatim>\<open>network_matches_scan_result\<close>: the result is whether it returned \<^verbatim>\<open>WM_SUCCESS\<close>,
  with the list of hidden-SSID channels (\<^verbatim>\<open>chan_list[0 .. *num_channels - 1]\<close>, which has
  room for 40 entries in the source) after the call.
\<close>

definition network_matches_scan_result ::
  "driver \<Rightarrow> wlan \<Rightarrow> wlan_network \<Rightarrow> wifi_scan_result2 \<Rightarrow> nat list \<Rightarrow> bool \<times> nat list" where
  "network_matches_scan_result drv w network res chan_list =
     (if channel_specific network \<and> channel network \<noteq> Channel res then (False, chan_list)
      else if bssid_specific network \<and> take 6 (bssid network) \<noteq> take 6 (res_bssid res)
      then (False, chan_list)
      else
        let chan_list1 =
              (if ssid_specific network \<and> \<not> hidden_scan_on w \<and>
                  list_all (\<lambda>c. c = CHR 0x00) (take (ssid_len res) (res_ssid res))
               then chan_list @ [Channel res] else chan_list)
        in
        if ssid_specific network \<and>
           (ssid_len res = 0 \<or>
            strncmp_ne (ssid network) (res_ssid res) (max (length (ssid network)) (ssid_len res)))
        then (False, chan_list1)
        else if security_specific network \<and> \<not> security_profile_matches drv network res
        then (False, chan_list1)
        else if \<not> (wepStatic res \<or> wpa3_sae res \<or> wpa2 res \<or> wpa res \<or> wpa2_sha256 res) \<and>
                (psk_len (security network) \<noteq> 0 \<or> password_len (security network) \<noteq> 0)
        then (False, chan_list1)
        else if \<not> chan_allowed drv (Channel res) then (False, chan_list1)
        else (True, chan_list1))"

subsection \<open>Scans and connection attempts\<close>

text \<open>
  \<^verbatim>\<open>do_scan\<close> and \<^verbatim>\<open>do_hidden_scan\<close>. The trace records the call of \<^verbatim>\<open>wifi_send_scan_cmd\<close> with
  its last argument (true for the directed scan of hidden-SSID channels); the other
  arguments, which are all that is read from \<^verbatim>\<open>network\<close>, are not recorded.
\<close>

definition do_scan :: "driver \<Rightarrow> wlan \<Rightarrow> wlan" where
  "do_scan drv w =
     (let w1 = emit (WIFI_SEND_SCAN_CMD False) (w\<lparr>sta_state := CM_STA_SCANNING\<rparr>) in
      if \<not> scan_cmd_ok drv then emit WLCMGR_SEND_MSG_SCAN_RESULT_FAILURE w1
      else w1\<lparr>scan_count := scan_count w1 + 1\<rparr>)"

definition do_hidden_scan :: "driver \<Rightarrow> wlan \<Rightarrow> nat list \<Rightarrow> wlan" where
  "do_hidden_scan drv w chan_list =
     (let w1 = emit (WIFI_SEND_SCAN_CMD True) (w\<lparr>sta_state := CM_STA_SCANNING\<rparr>) in
      if \<not> scan_cmd_ok drv then emit WLCMGR_SEND_MSG_SCAN_RESULT_FAILURE w1 else w1)"

definition do_connect :: "driver \<Rightarrow> wlan \<Rightarrow> int \<Rightarrow> wm_ret \<times> wlan" where
  "do_connect drv w netindex =
     (if role (net_at w netindex) \<noteq> WLAN_BSS_ROLE_STA then (E_INVAL, w)
      else (WM_SUCCESS, do_scan drv (w\<lparr>cur_network_idx := netindex, scan_count := 0\<rparr>)))"

definition do_connect_failed :: "wlan_event_reason \<Rightarrow> wlan \<Rightarrow> wlan" where
  "do_connect_failed reason w =
     (let w1 = (if sta_state w = CM_STA_SCANNING_USER then w\<lparr>sta_return_to := CM_STA_IDLE\<rparr>
                else w)
      in emit (CONNECTION_EVENT reason) (w1\<lparr>sta_state := CM_STA_IDLE\<rparr>))"

definition report_scan_results :: "wlan \<Rightarrow> wlan" where
  "report_scan_results w = (if scan_cb w then (emit SCAN_CB w)\<lparr>scan_cb := False\<rparr> else w)"

text \<open>
  \<^verbatim>\<open>update_network_params\<close> on the slot \<open>i\<close>. A profile stored with the wildcard type gets
  the strongest type the BSS advertises.
\<close>

definition update_network_params :: "int \<Rightarrow> wifi_scan_result2 \<Rightarrow> wlan \<Rightarrow> wlan" where
  "update_network_params i res w =
     (let network = net_at w i;
          t = (if wpa3_sae res \<and> wpa2 res then WLAN_SECURITY_WPA2_WPA3_SAE_MIXED
               else if wpa3_sae res then WLAN_SECURITY_WPA3_SAE
               else if wpa2 res then WLAN_SECURITY_WPA2
               else if wpa res then WLAN_SECURITY_WPA_WPA2_MIXED
               else if wepStatic res then WLAN_SECURITY_WEP_OPEN
               else WLAN_SECURITY_NONE);
          sec1 = (if \<not> security_specific network
                  then (if t = WLAN_SECURITY_WPA2
                        then (security network)\<lparr>sec_type := t, mfpr := False\<rparr>
                        else (security network)\<lparr>sec_type := t\<rparr>)
                  else security network);
          w1 = (if \<not> security_specific network \<and> t = WLAN_SECURITY_WPA2
                then emit (WIFI_SET_PMFCFG (mfpc sec1) (mfpr sec1)) w else w);
          l = ssid_len res;
          network1 = network
            \<lparr>security := sec1\<lparr>is_pmf_required := res_is_pmf_required res\<rparr>,
             dot11n := phtcap_ie_present res,
             channel := (if \<not> channel_specific network then Channel res else channel network),
             bssid := (if \<not> bssid_specific network then take 6 (res_bssid res)
                       else bssid network),
             ssid := (if \<not> ssid_specific network
                      then cstr 33 (take l (res_ssid res) @ drop l (ssid network))
                      else ssid network)\<rparr>
      in set_net i network1 w1)"

text \<open>
  \<^verbatim>\<open>configure_security\<close> for the slot \<open>i\<close>. \<^verbatim>\<open>load_wep_key\<close> is defined outside the file;
  the key it writes back into \<^verbatim>\<open>psk\<close> is not modelled.
\<close>

definition configure_security :: "driver \<Rightarrow> int \<Rightarrow> wifi_scan_result2 \<Rightarrow> wlan \<Rightarrow> wm_ret \<times> wlan" where
  "configure_security drv i res w =
     (let network = net_at w i; type = sec_type (security network) in
      if type = WLAN_SECURITY_WPA \<or> type = WLAN_SECURITY_WPA2 \<or>
         type = WLAN_SECURITY_WPA_WPA2_MIXED then
        (let w1 = (if pmk_valid (security network) then emit WIFI_SEND_ADD_WPA_PMK w
                   else emit WIFI_SEND_ADD_WPA_PSK w)
         in if \<not> add_wpa_key_ok drv then (E_FAIL, w1) else (WM_SUCCESS, w1))
      else if type = WLAN_SECURITY_WPA3_SAE \<or> type = WLAN_SECURITY_WPA2_WPA3_SAE_MIXED then
        (if wpa3_sae res then
           (let w1 = emit WIFI_SEND_ADD_WPA3_PASSWORD w in
            if \<not> add_wpa_key_ok drv then (E_FAIL, w1) else (WM_SUCCESS, w1))
         else if wpa2 res then
           (let w1 = emit WIFI_SEND_ADD_WPA_PSK w in
            if \<not> add_wpa_key_ok drv then (E_FAIL, w1) else (WM_SUCCESS, w1))
         else (WM_SUCCESS, w))
      else if type = WLAN_SECURITY_WEP_OPEN \<or> type = WLAN_SECURITY_WEP_SHARED then
        (let w1 = emit LOAD_WEP_KEY w in
         if \<not> load_wep_key_ok drv then (E_INVAL, w1)
         else let w2 = emit WIFI_SET_KEY w1 in
         if \<not> set_key_ok drv then (E_FAIL, w2) else (WM_SUCCESS, w2))
      else (WM_SUCCESS, w))"

definition start_association :: "driver \<Rightarrow> int \<Rightarrow> wifi_scan_result2 \<Rightarrow> wlan \<Rightarrow> wm_ret \<times> wlan" where
  "start_association drv i res w =
     (let (ret, w1) = configure_security drv i res (w\<lparr>roam_reassoc := False\<rparr>) in
      if ret \<noteq> WM_SUCCESS then (E_FAIL, do_connect_failed WLAN_REASON_NETWORK_NOT_FOUND w1)
      else
        let w2 = emit (WRAPPER_WIFI_ASSOC (res_bssid res) (sec_type (security (net_at w1 i)))) w1
        in if \<not> assoc_ok drv
           then (E_FAIL, do_connect_failed WLAN_REASON_NETWORK_NOT_FOUND w2)
           else (WM_SUCCESS, w2))"

text \<open>
  \<^verbatim>\<open>wlcm_request_connect\<close>, with \<^verbatim>\<open>msg->data\<close> as \<open>data\<close>; its last statement stores
  \<^verbatim>\<open>wlan.sta_state\<close> in \<^verbatim>\<open>*next\<close>, so the caller's \<open>next\<close> is the state of the result.
  \<^verbatim>\<open>network\<close> is the slot \<^verbatim>\<open>cur_network_idx\<close> pointed to when the handler was entered.
\<close>

definition wlcm_request_connect :: "driver \<Rightarrow> wlan \<Rightarrow> int \<Rightarrow> wlan" where
  "wlcm_request_connect drv w data =
     (let new_network = net_at w data;
          w1 = emit (WIFI_SET_PMFCFG (mfpc (security new_network)) (mfpr (security new_network))) w;
          w2 = (if roam_reassoc w1 = False \<and>
                   sta_ord (sta_state w1) \<ge> sta_ord CM_STA_ASSOCIATING \<and>
                   role new_network = WLAN_BSS_ROLE_STA
                then emit (WIFI_DEAUTHENTICATE (bssid (net_at w1 (cur_network_idx w1)))) w1
                else w1);
          (ret, w3) = do_connect drv w2 data
      in if ret \<noteq> WM_SUCCESS then
           (let w4 = (if is_scan_lock w3
                      then (emit OS_SEMAPHORE_PUT_SCAN_LOCK w3)\<lparr>is_scan_lock := False\<rparr>
                      else w3)
            in emit (CONNECTION_EVENT WLAN_REASON_CONNECT_FAILED) w4)
         else w3)"

text \<open>\<^verbatim>\<open>wlan_disconnect\<close>, the API call made by \<^verbatim>\<open>wlcm_request_reconnect\<close> when it gives up.\<close>

definition wlan_disconnect :: "wlan \<Rightarrow> wm_ret \<times> wlan" where
  "wlan_disconnect w =
     (if \<not> running w then (WLAN_ERROR_STATE, w)
      else (WM_SUCCESS, emit SEND_USER_REQUEST_DISCONNECT w))"

definition wlcm_request_reconnect :: "driver \<Rightarrow> wlan \<Rightarrow> wlan" where
  "wlcm_request_reconnect drv w =
     (let w1 = w\<lparr>reassoc_request := True\<rparr> in
      if unat (reassoc_count w1) < WLAN_RECONNECT_LIMIT
      then wlcm_request_connect drv (w1\<lparr>reassoc_count := reassoc_count w1 + 1\<rparr>)
             (cur_network_idx w1)
      else snd (wlan_disconnect
             (emit (CONNECTION_EVENT WLAN_REASON_CONNECT_FAILED)
                (w1\<lparr>reassoc_request := False, reassoc_count := 0\<rparr>))))"

subsection \<open>Handling the results of a connect scan\<close>

text \<open>
  The loop of \<^verbatim>\<open>handle_scan_results\<close> over the scan results. \<open>best\<close> is \<open>None\<close> while
  \<^verbatim>\<open>matching_ap_found\<close> is false and holds the copy \<^verbatim>\<open>best_ap\<close> afterwards; an entry
  \<open>None\<close> of the result list is a result that \<^verbatim>\<open>wifi_get_scan_result\<close> failed to return.
\<close>

fun select_best_ap ::
  "driver \<Rightarrow> wlan \<Rightarrow> wlan_network \<Rightarrow> wifi_scan_result2 option list \<Rightarrow>
   wifi_scan_result2 option \<Rightarrow> nat list \<Rightarrow> wifi_scan_result2 option \<times> nat list" where
  "select_best_ap drv w network [] best chan_list = (best, chan_list)"
| "select_best_ap drv w network (None # rest) best chan_list =
     select_best_ap drv w network rest best chan_list"
| "select_best_ap drv w network (Some res # rest) best chan_list =
     (let (ret, chan_list1) = network_matches_scan_result drv w network res chan_list in
      if ret then
        (case best of
           None \<Rightarrow> select_best_ap drv w network rest (Some res) chan_list1
         | Some best_ap \<Rightarrow>
             if RSSI best_ap > RSSI res
             then select_best_ap drv w network rest (Some res) chan_list1
             else select_best_ap drv w network rest best chan_list1)
      else select_best_ap drv w network rest best chan_list1)"

text \<open>
  The results the loop visits: \<^verbatim>\<open>count\<close> is what \<^verbatim>\<open>wifi_get_scan_result_count\<close> gave,
  or 0 when that call failed.
\<close>

definition scan_result_list :: "driver \<Rightarrow> wifi_scan_result2 option list" where
  "scan_result_list drv =
     take (case scan_result_count drv of None \<Rightarrow> 0 | Some count \<Rightarrow> count) (scan_results drv)"

text \<open>
  The end of \<^verbatim>\<open>handle_scan_results\<close>, reached when no network matched and no hidden-SSID
  channel was collected, and also when \<^verbatim>\<open>start_association\<close> failed.
\<close>

definition scan_results_fallback :: "driver \<Rightarrow> wlan \<Rightarrow> wlan" where
  "scan_results_fallback drv w =
     (if roam_reassoc w then w\<lparr>sta_state := CM_STA_CONNECTED, roam_reassoc := False\<rparr>
      else if unat (scan_count w) < WLAN_RESCAN_LIMIT
      then do_scan drv (w\<lparr>hidden_scan_on := False\<rparr>)
      else
        let w1 = do_connect_failed WLAN_REASON_NETWORK_NOT_FOUND w in
        if reassoc_control w1 then wlcm_request_reconnect drv w1 else w1)"

text \<open>
  \<^verbatim>\<open>handle_scan_results\<close>. The allocation of \<^verbatim>\<open>best_ap\<close> is taken to succeed (on failure
  the function returns at once).
\<close>

definition handle_scan_results :: "driver \<Rightarrow> wlan \<Rightarrow> wlan" where
  "handle_scan_results drv w =
     (let i = cur_network_idx w;
          network = net_at w i;
          w1 = w\<lparr>sta_state := CM_STA_ASSOCIATING\<rparr>;
          (best, chan_list) = select_best_ap drv w1 network (scan_result_list drv) None []
      in case best of
           Some best_ap \<Rightarrow>
             if roam_reassoc w1 \<and> take 6 (bssid network) = take 6 (res_bssid best_ap)
             then w1\<lparr>sta_state := CM_STA_CONNECTED, roam_reassoc := False\<rparr>
             else
               let w2 = update_network_params i best_ap (w1\<lparr>same_ess := False\<rparr>);
                   (ret, w3) = start_association drv i best_ap w2
               in if ret = WM_SUCCESS then w3 else scan_results_fallback drv w3
         | None \<Rightarrow>
             if chan_list \<noteq> []
             then do_hidden_scan drv (w1\<lparr>hidden_scan_on := True\<rparr>) chan_list
             else scan_results_fallback drv w1)"

subsection \<open>Event handlers of the station\<close>

text \<open>
  Each handler gets the local \<open>next\<close> of \<^verbatim>\<open>handle_message\<close> and returns it with the state.
  \<open>success\<close> is \<^verbatim>\<open>msg->reason == WIFI_EVENT_REASON_SUCCESS\<close>.
\<close>

definition release_scan_lock :: "wlan \<Rightarrow> wlan" where
  "release_scan_lock w = (emit OS_SEMAPHORE_PUT_SCAN_LOCK w)\<lparr>is_scan_lock := False\<rparr>"

definition wlcm_process_scan_result_event ::
  "driver \<Rightarrow> wlan \<Rightarrow> bool \<Rightarrow> cm_sta_state \<Rightarrow> wlan \<times> cm_sta_state" where
  "wlcm_process_scan_result_event drv w success next =
     (if sta_state w = CM_STA_SCANNING then
        (let w1 = handle_scan_results drv w in (release_scan_lock w1, sta_state w1))
      else if sta_state w = CM_STA_SCANNING_USER then
        (let w1 = report_scan_results w in (release_scan_lock w1, sta_return_to w1))
      else if roam_reassoc w \<and> sta_state w = CM_STA_CONNECTED then
        (let w1 = handle_scan_results drv w in (w1, sta_state w1))
      else (release_scan_lock w, next))"

definition wlcm_process_association_event ::
  "driver \<Rightarrow> wlan \<Rightarrow> bool \<Rightarrow> cm_sta_state \<Rightarrow> wlan \<times> cm_sta_state" where
  "wlcm_process_association_event drv w success next =
     (if \<not> is_state w CM_STA_ASSOCIATING then (w, next)
      else if success
      then (w\<lparr>sta_state := CM_STA_ASSOCIATED, scan_count := 0\<rparr>, CM_STA_ASSOCIATED)
      else if unat (scan_count w) < WLAN_RESCAN_LIMIT then (do_scan drv w, CM_STA_SCANNING)
      else
        let w1 = do_connect_failed WLAN_REASON_NETWORK_NOT_FOUND w;
            w2 = (if reassoc_control w1 then wlcm_request_reconnect drv w1 else w1)
        in (w2, sta_state w2))"

text \<open>
  \<^verbatim>\<open>wlcm_request_scan\<close>; \<open>has_params\<close> is \<^verbatim>\<open>msg->data != NULL\<close>. The arguments of the scan
  command are not recorded.
\<close>

definition wlcm_request_scan ::
  "driver \<Rightarrow> wlan \<Rightarrow> bool \<Rightarrow> cm_sta_state \<Rightarrow> wlan \<times> cm_sta_state" where
  "wlcm_request_scan drv w has_params next =
     (if \<not> has_params then (release_scan_lock w, next)
      else if \<not> is_scanning_allowed w then (release_scan_lock w, next)
      else
        let w1 = emit (WIFI_SEND_SCAN_CMD False) w in
        if \<not> scan_cmd_ok drv then (release_scan_lock w1, sta_state w1)
        else (w1\<lparr>scan_cb := True, sta_return_to := sta_state w1\<rparr>, CM_STA_SCANNING_USER))"

text \<open>
  \<^verbatim>\<open>wlcm_request_disconnect\<close>, with \<^verbatim>\<open>curr_nw\<close> the slot \<^verbatim>\<open>cur_network_idx\<close>.
  \<^verbatim>\<open>net_get_mlan_handle\<close> returns the station interface or NULL.
\<close>

definition wlcm_request_disconnect ::
  "driver \<Rightarrow> wlan \<Rightarrow> cm_sta_state \<Rightarrow> wlan \<times> cm_sta_state" where
  "wlcm_request_disconnect drv w next =
     (let curr_nw = net_at w (cur_network_idx w);
          if_handle = (net_type curr_nw = WLAN_BSS_TYPE_STA \<and> mlan_handle drv)
      in if \<not> if_handle then (w, next)
      else
        let w1 = emit NET_INTERFACE_DOWN (emit NET_INTERFACE_DHCP_STOP (emit NET_STOP_DHCP_TIMER w))
        in
        if sta_ord (sta_state w1) < sta_ord CM_STA_IDLE \<or> is_state w1 CM_STA_IDLE
        then (w1\<lparr>xfer_pending := False\<rparr>, next)
        else
          let (w2, next2) =
            (if is_user_scanning w1 \<and> sta_return_to w1 \<noteq> CM_STA_IDLE then
               (if sta_ord (sta_return_to w1) \<ge> sta_ord CM_STA_ASSOCIATING
                then ((emit (WIFI_DEAUTHENTICATE (bssid curr_nw)) w1)
                        \<lparr>sta_return_to := CM_STA_IDLE, sta_ipv4_state := CM_STA_IDLE,
                         sta_ipv6_state := CM_STA_IDLE\<rparr>, CM_STA_IDLE)
                else (w1, next))
             else if sta_ord (sta_state w1) \<ge> sta_ord CM_STA_ASSOCIATING then
               (let w1a = emit (WIFI_DEAUTHENTICATE (bssid curr_nw)) w1;
                    w1b = (if is_scan_lock w1a then release_scan_lock w1a else w1a)
                in (w1b\<lparr>sta_state := CM_STA_IDLE, sta_ipv4_state := CM_STA_IDLE,
                        sta_ipv6_state := CM_STA_IDLE\<rparr>, CM_STA_IDLE))
             else if sta_state w1 = CM_STA_SCANNING then
               (w1\<lparr>sta_state := CM_STA_IDLE, sta_ipv4_state := CM_STA_IDLE,
                    sta_ipv6_state := CM_STA_IDLE\<rparr>, CM_STA_IDLE)
             else (w1, next));
              w3 = emit (CONNECTION_EVENT WLAN_REASON_USER_DISCONNECT) w2;
              w4 = (if reassoc_control w3 \<and> reassoc_request w3
                    then w3\<lparr>scan_count := of_nat WLAN_RESCAN_LIMIT,
                            reassoc_count := of_nat WLAN_RECONNECT_LIMIT,
                            reassoc_request := False\<rparr>
                    else w3);
              w5 = (if connect_wakelock_taken w4 then w4\<lparr>connect_wakelock_taken := False\<rparr>
                    else w4)
          in (w5\<lparr>xfer_pending := False\<rparr>, next2))"

section \<open>Power save\<close>

text \<open>
  \<^verbatim>\<open>wlan_map_to_wifi_wakeup_condtions\<close>. The \<^verbatim>\<open>WAKE_ON_*\<close> bits are those of wlan.h; the
  \<^verbatim>\<open>WIFI_WAKE_ON_*\<close> bits belong to the driver and are looked up in \<open>wakeup_map\<close>, which gives
  the driver's bit for each bit of wlan.h.
\<close>

definition WAKE_ON_ALL_BROADCAST :: "32 word" where "WAKE_ON_ALL_BROADCAST = 1"
definition WAKE_ON_UNICAST :: "32 word" where "WAKE_ON_UNICAST = 2"
definition WAKE_ON_MAC_EVENT :: "32 word" where "WAKE_ON_MAC_EVENT = 4"
definition WAKE_ON_MULTICAST :: "32 word" where "WAKE_ON_MULTICAST = 8"
definition WAKE_ON_ARP_BROADCAST :: "32 word" where "WAKE_ON_ARP_BROADCAST = 16"
definition WAKE_ON_MGMT_FRAME :: "32 word" where "WAKE_ON_MGMT_FRAME = 64"

definition wlan_map_to_wifi_wakeup_condtions :: "driver \<Rightarrow> 32 word \<Rightarrow> 32 word" where
  "wlan_map_to_wifi_wakeup_condtions drv wlan_wakeup_condtions =
     fold (\<lambda>b conditions.
             if and wlan_wakeup_condtions b \<noteq> 0 then or conditions (wakeup_map drv b)
             else conditions)
       [WAKE_ON_UNICAST, WAKE_ON_ALL_BROADCAST, WAKE_ON_MULTICAST, WAKE_ON_ARP_BROADCAST,
        WAKE_ON_MAC_EVENT, WAKE_ON_MGMT_FRAME] 0"

text \<open>\<^verbatim>\<open>wlan_get_ipv4_addr\<close> through \<^verbatim>\<open>wlan_get_current_sta_network\<close>: the result code.\<close>

definition wlan_get_ipv4_addr :: "wlan \<Rightarrow> wm_ret" where
  "wlan_get_ipv4_addr w =
     (if running w \<and> (is_state w CM_STA_CONNECTED \<or> is_state w CM_STA_ASSOCIATED)
      then WM_SUCCESS else E_FAIL)"

text \<open>
  \<^verbatim>\<open>wlan_send_host_sleep_int\<close> in the build without \<^verbatim>\<open>CONFIG_HOST_SLEEP\<close>. Its first
  statement clears \<^verbatim>\<open>wlan.hs_configured\<close>, so the test that follows always takes the
  branch that configures; \<open>cancel\<close> is whether the argument is \<^verbatim>\<open>HOST_SLEEP_CFG_CANCEL\<close>.
\<close>

definition wlan_send_host_sleep_int :: "driver \<Rightarrow> wlan \<Rightarrow> 32 word \<Rightarrow> bool \<Rightarrow> wm_ret \<times> wlan" where
  "wlan_send_host_sleep_int drv w wakeup_condition cancel =
     (let w1 = w\<lparr>hs_configured := False\<rparr>;
          mapped = wlan_map_to_wifi_wakeup_condtions drv wakeup_condition;
          step = (if hs_configured w1 then
                    (if cancel
                     then Inr (w1\<lparr>hs_configured := False, hs_wakeup_condition := wakeup_condition\<rparr>)
                     else if hs_wakeup_condition w1 \<noteq> mapped then Inl E_FAIL
                     else Inr w1)
                  else Inr (w1\<lparr>hs_configured := True, hs_wakeup_condition := mapped\<rparr>))
      in case step of
           Inl e \<Rightarrow> (e, w1)
         | Inr w2 \<Rightarrow>
             if wlan_get_ipv4_addr w2 \<noteq> WM_SUCCESS then (E_FAIL, w2)
             else
               let type = (if is_uap_started w2 then WLAN_BSS_TYPE_UAP else WLAN_BSS_TYPE_STA);
                   w3 = emit (WIFI_SEND_HS_CFG_CMD type) w2
               in (if hs_cfg_cmd_ok drv then WM_SUCCESS else E_FAIL, w3))"

definition wlan_host_sleep_and_sleep_confirm :: "driver \<Rightarrow> wlan \<Rightarrow> wlan" where
  "wlan_host_sleep_and_sleep_confirm drv w =
     (if xfer_pending w then w\<lparr>g_req_sl_confirm := True\<rparr>
      else
        let (ret, w1) =
              (if hs_configured w
               then wlan_send_host_sleep_int drv w (hs_wakeup_condition w) False
               else (WM_SUCCESS, w))
        in
        if hs_configured w \<and>
           (ret \<noteq> WM_SUCCESS \<or> (\<not> is_uap_started w1 \<and> \<not> is_state w1 CM_STA_CONNECTED))
        then w1\<lparr>g_req_sl_confirm := True\<rparr>
        else (emit (SEND_SLEEP_CONFIRM_COMMAND WLAN_BSS_TYPE_STA)
                (w1\<lparr>cm_ps_state := PS_STATE_SLEEP_CFM\<rparr>))\<lparr>g_req_sl_confirm := False\<rparr>)"

definition wlan_send_sleep_confirm :: "wlan \<Rightarrow> wlan" where
  "wlan_send_sleep_confirm w =
     (let type = (if is_uap_started w then WLAN_BSS_TYPE_UAP else WLAN_BSS_TYPE_STA) in
      emit (SEND_SLEEP_CONFIRM_COMMAND type) (w\<lparr>cm_ps_state := PS_STATE_SLEEP_CFM\<rparr>))"

text \<open>
  One pass through the \<^verbatim>\<open>switch\<close> of \<^verbatim>\<open>wlan_ieeeps_sm\<close>: the state after the actions of
  the case, and \<^verbatim>\<open>next_state\<close>. The tests of one case are on the same event, so at most
  one of them fires.
\<close>

definition ieeeps_step :: "driver \<Rightarrow> wlan \<Rightarrow> wlan_ieeeps_event \<Rightarrow> wlan \<times> wlan_ieeeps_state" where
  "ieeeps_step drv w event =
     (let prev_state = ieeeps_prev_state w in
      case ieeeps_state w of
        IEEEPS_INIT \<Rightarrow>
          (if event = IEEEPS_EVENT_ENABLE then (emit WIFI_ENTER_IEEE_POWER_SAVE w, IEEEPS_INIT)
           else if event = IEEEPS_EVENT_ENABLE_DONE then (w, IEEEPS_CONFIGURING)
           else (w, IEEEPS_INIT))
      | IEEEPS_CONFIGURING \<Rightarrow>
          (if event = IEEEPS_EVENT_AWAKE then (w, IEEEPS_AWAKE)
           else if event = IEEEPS_EVENT_SLEEP then (w, IEEEPS_PRE_SLEEP)
           else if event = IEEEPS_EVENT_DISABLE then (w, IEEEPS_DISABLING)
           else (w, IEEEPS_CONFIGURING))
      | IEEEPS_AWAKE \<Rightarrow>
          (if event = IEEEPS_EVENT_ENTER then (w\<lparr>cm_ps_state := PS_STATE_AWAKE\<rparr>, IEEEPS_AWAKE)
           else if event = IEEEPS_EVENT_SLEEP then (w, IEEEPS_PRE_SLEEP)
           else if event = IEEEPS_EVENT_DISABLE then (w, IEEEPS_DISABLING)
           else (w, IEEEPS_AWAKE))
      | IEEEPS_PRE_SLEEP \<Rightarrow>
          (if event = IEEEPS_EVENT_ENTER
           then (wlan_host_sleep_and_sleep_confirm drv w, IEEEPS_PRE_SLEEP)
           else if event = IEEEPS_EVENT_SLEEP
           then (wlan_host_sleep_and_sleep_confirm drv w, IEEEPS_PRE_SLEEP)
           else if event = IEEEPS_EVENT_SLP_CFM then (w, IEEEPS_SLEEP)
           else if event = IEEEPS_EVENT_DISABLE
           then (w\<lparr>g_req_sl_confirm := False\<rparr>, IEEEPS_DISABLING)
           else (w, IEEEPS_PRE_SLEEP))
      | IEEEPS_SLEEP \<Rightarrow>
          (if event = IEEEPS_EVENT_ENTER then (w\<lparr>g_req_sl_confirm := False\<rparr>, IEEEPS_SLEEP)
           else if event = IEEEPS_EVENT_AWAKE then (w, IEEEPS_AWAKE)
           else if event = IEEEPS_EVENT_SLEEP then (w, IEEEPS_PRE_SLEEP)
           else if event = IEEEPS_EVENT_DISABLE
           then (w, if is_state w CM_STA_CONNECTED then IEEEPS_PRE_DISABLE else IEEEPS_DISABLING)
           else (w, IEEEPS_SLEEP))
      | IEEEPS_PRE_DISABLE \<Rightarrow>
          (if event = IEEEPS_EVENT_ENTER then (w, IEEEPS_DISABLING) else (w, IEEEPS_PRE_DISABLE))
      | IEEEPS_DISABLING \<Rightarrow>
          (if (prev_state = IEEEPS_CONFIGURING \<or> prev_state = IEEEPS_AWAKE \<or>
               prev_state = IEEEPS_SLEEP \<or> prev_state = IEEEPS_PRE_DISABLE) \<and>
              event = IEEEPS_EVENT_ENTER
           then (emit WIFI_EXIT_IEEE_POWER_SAVE w, IEEEPS_DISABLING)
           else if prev_state = IEEEPS_PRE_SLEEP \<and> event = IEEEPS_EVENT_AWAKE
           then (emit WIFI_EXIT_IEEE_POWER_SAVE w, IEEEPS_DISABLING)
           else if event = IEEEPS_EVENT_DISABLE_DONE then (w, IEEEPS_INIT)
           else (w, IEEEPS_DISABLING)))"

text \<open>
  \<^verbatim>\<open>wlan_ieeeps_sm\<close>: the \<^verbatim>\<open>while (true)\<close> loop runs the switch again with the event
  \<^verbatim>\<open>ENTER\<close> for as long as the state changed.
\<close>

function wlan_ieeeps_sm :: "driver \<Rightarrow> wlan \<Rightarrow> wlan_ieeeps_event \<Rightarrow> wlan" where
  "wlan_ieeeps_sm drv w event =
     (let (w1, next_state) = ieeeps_step drv w event in
      if ieeeps_state w \<noteq> next_state
      then wlan_ieeeps_sm drv
             (w1\<lparr>ieeeps_prev_state := ieeeps_state w, ieeeps_state := next_state\<rparr>)
             IEEEPS_EVENT_ENTER
      else w1)"
  by pat_completeness auto
termination
proof (relation "measure (\<lambda>(drv, w, event).
          if event \<noteq> IEEEPS_EVENT_ENTER then 2
          else if ieeeps_state w = IEEEPS_PRE_DISABLE then 1 else 0)")
  show "wf (measure (\<lambda>(drv, w, event).
          if event \<noteq> IEEEPS_EVENT_ENTER then 2
          else if ieeeps_state w = IEEEPS_PRE_DISABLE then (1::nat) else 0))"
    by simp
next
  fix drv w event x w1 next_state
  assume "x = ieeeps_step drv w event" "(w1, next_state) = x" "ieeeps_state w \<noteq> next_state"
  then have "fst (ieeeps_step drv w event) = w1" "snd (ieeeps_step drv w event) = next_state"
    by (metis fst_conv, metis snd_conv)
  with \<open>ieeeps_state w \<noteq> next_state\<close>
  have "event \<noteq> IEEEPS_EVENT_ENTER \<or>
        (ieeeps_state w = IEEEPS_PRE_DISABLE \<and> next_state = IEEEPS_DISABLING)"
    by (cases "ieeeps_state w") (auto simp: ieeeps_step_def Let_def split: if_splits)
  then show "((drv, w1\<lparr>ieeeps_prev_state := ieeeps_state w, ieeeps_state := next_state\<rparr>,
               IEEEPS_EVENT_ENTER), drv, w, event)
             \<in> measure (\<lambda>(drv, w, event).
                  if event \<noteq> IEEEPS_EVENT_ENTER then 2
                  else if ieeeps_state w = IEEEPS_PRE_DISABLE then 1 else 0)"
    by auto
qed

declare wlan_ieeeps_sm.simps [simp del]

definition deepsleepps_step ::
  "wlan \<Rightarrow> wlan_deepsleepps_event \<Rightarrow> wlan \<times> wlan_deepsleepps_state" where
  "deepsleepps_step w event =
     (case deepsleepps_state w of
        DEEPSLEEPPS_INIT \<Rightarrow>
          (if event = DEEPSLEEPPS_EVENT_ENABLE
           then (emit WIFI_ENTER_DEEPSLEEP_POWER_SAVE w, DEEPSLEEPPS_INIT)
           else if event = DEEPSLEEPPS_EVENT_ENABLE_DONE then (w, DEEPSLEEPPS_CONFIGURING)
           else (w, DEEPSLEEPPS_INIT))
      | DEEPSLEEPPS_CONFIGURING \<Rightarrow>
          (if event = DEEPSLEEPPS_EVENT_SLEEP then (w, DEEPSLEEPPS_PRE_SLEEP)
           else (w, DEEPSLEEPPS_CONFIGURING))
      | DEEPSLEEPPS_AWAKE \<Rightarrow>
          (if event = DEEPSLEEPPS_EVENT_ENTER
           then (w\<lparr>cm_ps_state := PS_STATE_AWAKE\<rparr>, DEEPSLEEPPS_AWAKE)
           else if event = DEEPSLEEPPS_EVENT_SLEEP then (w, DEEPSLEEPPS_PRE_SLEEP)
           else (w, DEEPSLEEPPS_AWAKE))
      | DEEPSLEEPPS_PRE_SLEEP \<Rightarrow>
          (if event = DEEPSLEEPPS_EVENT_ENTER
           then (wlan_send_sleep_confirm w, DEEPSLEEPPS_PRE_SLEEP)
           else if event = DEEPSLEEPPS_EVENT_SLP_CFM
           then (w\<lparr>g_req_sl_confirm := False\<rparr>, DEEPSLEEPPS_SLEEP)
           else (w, DEEPSLEEPPS_PRE_SLEEP))
      | DEEPSLEEPPS_SLEEP \<Rightarrow>
          (if event = DEEPSLEEPPS_EVENT_AWAKE then (w, DEEPSLEEPPS_AWAKE)
           else if event = DEEPSLEEPPS_EVENT_DISABLE then (w, DEEPSLEEPPS_PRE_DISABLE)
           else (w, DEEPSLEEPPS_SLEEP))
      | DEEPSLEEPPS_PRE_DISABLE \<Rightarrow>
          (if event = DEEPSLEEPPS_EVENT_ENTER then (w, DEEPSLEEPPS_DISABLING)
           else (w, DEEPSLEEPPS_PRE_DISABLE))
      | DEEPSLEEPPS_DISABLING \<Rightarrow>
          (if event = DEEPSLEEPPS_EVENT_ENTER
           then (emit WIFI_EXIT_DEEPSLEEP_POWER_SAVE w, DEEPSLEEPPS_DISABLING)
           else if event = DEEPSLEEPPS_EVENT_DISABLE_DONE then (w, DEEPSLEEPPS_INIT)
           else (w, DEEPSLEEPPS_DISABLING)))"

function wlan_deepsleepps_sm :: "wlan \<Rightarrow> wlan_deepsleepps_event \<Rightarrow> wlan" where
  "wlan_deepsleepps_sm w event =
     (let (w1, next_state) = deepsleepps_step w event in
      if deepsleepps_state w \<noteq> next_state
      then wlan_deepsleepps_sm (w1\<lparr>deepsleepps_state := next_state\<rparr>) DEEPSLEEPPS_EVENT_ENTER
      else w1)"
  by pat_completeness auto
termination
proof (relation "measure (\<lambda>(w, event).
          if event \<noteq> DEEPSLEEPPS_EVENT_ENTER then 2
          else if deepsleepps_state w = DEEPSLEEPPS_PRE_DISABLE then 1 else 0)")
  show "wf (measure (\<lambda>(w, event).
          if event \<noteq> DEEPSLEEPPS_EVENT_ENTER then 2
          else if deepsleepps_state w = DEEPSLEEPPS_PRE_DISABLE then (1::nat) else 0))"
    by simp
next
  fix w event x w1 next_state
  assume "x = deepsleepps_step w event" "(w1, next_state) = x"
    "deepsleepps_state w \<noteq> next_state"
  then have "snd (deepsleepps_step w event) = next_state"
    by (metis snd_conv)
  with \<open>deepsleepps_state w \<noteq> next_state\<close>
  have "event \<noteq> DEEPSLEEPPS_EVENT_ENTER \<or>
        (deepsleepps_state w = DEEPSLEEPPS_PRE_DISABLE \<and> next_state = DEEPSLEEPPS_DISABLING)"
    by (cases "deepsleepps_state w") (auto simp: deepsleepps_step_def split: if_splits)
  then show "((w1\<lparr>deepsleepps_state := next_state\<rparr>, DEEPSLEEPPS_EVENT_ENTER), w, event)
             \<in> measure (\<lambda>(w, event).
                  if event \<noteq> DEEPSLEEPPS_EVENT_ENTER then 2
                  else if deepsleepps_state w = DEEPSLEEPPS_PRE_DISABLE then 1 else 0)"
    by auto
qed

declare wlan_deepsleepps_sm.simps [simp del]

definition wlcm_process_awake_event :: "driver \<Rightarrow> wlan \<Rightarrow> wlan" where
  "wlcm_process_awake_event drv w =
     wlan_deepsleepps_sm
       (wlan_ieeeps_sm drv (w\<lparr>cm_ps_state := PS_STATE_AWAKE\<rparr>) IEEEPS_EVENT_AWAKE)
       DEEPSLEEPPS_EVENT_AWAKE"

section \<open>The uAP state machine and the dispatcher\<close>

text \<open>
  The messages of the event queue that are modelled, named after \<^verbatim>\<open>msg->event\<close>. A
  \<open>bool\<close> argument is \<^verbatim>\<open>msg->reason == WIFI_EVENT_REASON_SUCCESS\<close>, except for the scan
  request, where it is \<^verbatim>\<open>msg->data != NULL\<close>; an \<open>int\<close> argument is the network index in
  \<^verbatim>\<open>msg->data\<close>. \<open>WIFI_EVENT_UNKNOWN\<close> is an event number without a case of its own.
\<close>

datatype wifi_message =
    CM_STA_USER_REQUEST_CONNECT int
  | CM_STA_USER_REQUEST_DISCONNECT
  | CM_STA_USER_REQUEST_SCAN bool
  | WIFI_EVENT_SCAN_RESULT bool
  | WIFI_EVENT_ASSOCIATION bool
  | WIFI_EVENT_SLEEP
  | WIFI_EVENT_AWAKE
  | CM_UAP_USER_REQUEST_START int
  | CM_UAP_USER_REQUEST_STOP
  | WIFI_EVENT_UAP_STARTED bool
  | WIFI_EVENT_UAP_CLIENT_ASSOC
  | WIFI_EVENT_UAP_CLIENT_CONN
  | WIFI_EVENT_UAP_CLIENT_DEAUTH
  | WIFI_EVENT_UAP_STOPPED
  | WIFI_EVENT_UAP_NET_ADDR_CONFIG bool
  | WIFI_EVENT_UNKNOWN

text \<open>
  \<^verbatim>\<open>do_start\<close> and \<^verbatim>\<open>do_stop\<close> for the slot \<open>i\<close>. The scan channel list handed to the driver
  (\<^verbatim>\<open>wlan_uap_set_scan_chan_list\<close>) is not modelled.
\<close>

definition do_start :: "driver \<Rightarrow> int \<Rightarrow> wlan \<Rightarrow> wm_ret \<times> wlan" where
  "do_start drv i w =
     (let network = net_at w i in
      if role network = WLAN_BSS_ROLE_UAP then
        (let w1 =
               (if \<not> channel_specific network then
                  (if running w \<and>
                      (is_state w CM_STA_CONNECTED \<or> is_state w CM_STA_ASSOCIATED)
                   then set_net i (network\<lparr>channel := channel (net_at w (cur_network_idx w))\<rparr>) w
                   else set_net i (network\<lparr>channel := uap_default_channel drv\<rparr>) w)
                else w)
         in
         if channel_specific network \<and> channel network \<notin> set (active_chan_list drv)
         then (E_FAIL, emit (CONNECTION_EVENT WLAN_REASON_UAP_START_FAILED) w1)
         else
           let w2 = emit WIFI_UAP_START w1 in
           if \<not> uap_start_ok drv
           then (E_FAIL, emit (CONNECTION_EVENT WLAN_REASON_UAP_START_FAILED) w2)
           else (WM_SUCCESS, w2\<lparr>uap_state := CM_UAP_CONFIGURED\<rparr>))
      else (WM_SUCCESS, w))"

definition do_stop :: "driver \<Rightarrow> int \<Rightarrow> wlan \<Rightarrow> wm_ret \<times> wlan" where
  "do_stop drv i w =
     (if role (net_at w i) = WLAN_BSS_ROLE_UAP then
        (let w1 = emit WIFI_UAP_STOP w in
         if \<not> uap_stop_ok drv
         then (E_FAIL, emit (CONNECTION_EVENT WLAN_REASON_UAP_STOP_FAILED) w1)
         else (WM_SUCCESS, w1\<lparr>uap_state := CM_UAP_INITIALIZING\<rparr>))
      else (WM_SUCCESS, w))"

text \<open>
  \<^verbatim>\<open>uap_state_machine\<close> returns the next uAP state, which \<^verbatim>\<open>cm_main\<close> stores. \<^verbatim>\<open>network\<close>
  is the slot \<^verbatim>\<open>cur_uap_network_idx\<close> on entry.
\<close>

definition uap_state_machine :: "driver \<Rightarrow> wlan \<Rightarrow> wifi_message \<Rightarrow> wlan \<times> cm_uap_state" where
  "uap_state_machine drv w msg =
     (let i = cur_uap_network_idx w; network = net_at w i; next = uap_state w in
      case msg of
        CM_UAP_USER_REQUEST_START data \<Rightarrow>
          (let w1 = snd (do_start drv data (w\<lparr>cur_uap_network_idx := data, scan_count := 0\<rparr>))
           in (w1, uap_state w1))
      | CM_UAP_USER_REQUEST_STOP \<Rightarrow>
          (if uap_ord (uap_state w) < uap_ord CM_UAP_CONFIGURED then (w, next)
           else let w1 = snd (do_stop drv i w) in (w1, uap_state w1))
      | WIFI_EVENT_UAP_STARTED success \<Rightarrow>
          (if \<not> is_uap_state w CM_UAP_CONFIGURED then (w, next)
           else if success then
             (let w1 = (if net_type network = WLAN_BSS_TYPE_UAP
                        then set_net i (network\<lparr>bssid := take 6 (uap_mac w)\<rparr>) w else w);
                  w2 = emit NET_CONFIGURE_ADDRESS w1
              in if \<not> net_configure_address_ok drv
                 then (emit (CONNECTION_EVENT WLAN_REASON_ADDRESS_FAILED) w2, next)
                 else (w2, CM_UAP_STARTED))
           else (emit (CONNECTION_EVENT WLAN_REASON_UAP_START_FAILED) w, next))
      | WIFI_EVENT_UAP_CLIENT_ASSOC \<Rightarrow>
          (emit (CONNECTION_EVENT WLAN_REASON_UAP_CLIENT_ASSOC) w, next)
      | WIFI_EVENT_UAP_CLIENT_CONN \<Rightarrow>
          (emit (CONNECTION_EVENT WLAN_REASON_UAP_CLIENT_CONN) w, next)
      | WIFI_EVENT_UAP_CLIENT_DEAUTH \<Rightarrow>
          (emit (CONNECTION_EVENT WLAN_REASON_UAP_CLIENT_DISSOC) w, next)
      | WIFI_EVENT_UAP_STOPPED \<Rightarrow>
          (emit (CONNECTION_EVENT WLAN_REASON_UAP_STOPPED) w, next)
      | WIFI_EVENT_UAP_NET_ADDR_CONFIG success \<Rightarrow>
          (if \<not> is_uap_state w CM_UAP_STARTED then (w, next)
           else if success \<and> ipv4_addr_type network = ADDR_TYPE_STATIC then
             (emit (CONNECTION_EVENT WLAN_REASON_UAP_SUCCESS) (emit NET_GET_IF_ADDR w),
              CM_UAP_IP_UP)
           else (emit (CONNECTION_EVENT WLAN_REASON_ADDRESS_FAILED) w, CM_UAP_INITIALIZING))
      | _ \<Rightarrow> (w, next))"

text \<open>
  \<^verbatim>\<open>handle_message\<close> for the station messages that are modelled; the other cases of the
  source's \<^verbatim>\<open>switch\<close> are not needed by the properties below.
\<close>

definition handle_message :: "driver \<Rightarrow> wlan \<Rightarrow> wifi_message \<Rightarrow> wlan \<times> cm_sta_state" where
  "handle_message drv w msg =
     (let next = sta_state w in
      case msg of
        CM_STA_USER_REQUEST_CONNECT data \<Rightarrow>
          (let w1 = w\<lparr>pending_assoc_request := False\<rparr> in
           if \<not> assoc_paused w1
           then (let w2 = wlcm_request_connect drv w1 data in (w2, sta_state w2))
           else (w1\<lparr>pending_assoc_request := True\<rparr>, next))
      | CM_STA_USER_REQUEST_DISCONNECT \<Rightarrow> wlcm_request_disconnect drv w next
      | CM_STA_USER_REQUEST_SCAN has_params \<Rightarrow> wlcm_request_scan drv w has_params next
      | WIFI_EVENT_SCAN_RESULT success \<Rightarrow> wlcm_process_scan_result_event drv w success next
      | WIFI_EVENT_ASSOCIATION success \<Rightarrow> wlcm_process_association_event drv w success next
      | WIFI_EVENT_SLEEP \<Rightarrow> (emit (SEND_SLEEP_CONFIRM_COMMAND WLAN_BSS_TYPE_STA) w, next)
      | WIFI_EVENT_AWAKE \<Rightarrow> (wlcm_process_awake_event drv w, next)
      | _ \<Rightarrow> (w, next))"

definition is_uap_msg :: "wifi_message \<Rightarrow> bool" where
  "is_uap_msg msg =
     (case msg of
        CM_UAP_USER_REQUEST_START _ \<Rightarrow> True
      | CM_UAP_USER_REQUEST_STOP \<Rightarrow> True
      | WIFI_EVENT_UAP_STARTED _ \<Rightarrow> True
      | WIFI_EVENT_UAP_CLIENT_ASSOC \<Rightarrow> True
      | WIFI_EVENT_UAP_CLIENT_CONN \<Rightarrow> True
      | WIFI_EVENT_UAP_CLIENT_DEAUTH \<Rightarrow> True
      | WIFI_EVENT_UAP_STOPPED \<Rightarrow> True
      | WIFI_EVENT_UAP_NET_ADDR_CONFIG _ \<Rightarrow> True
      | _ \<Rightarrow> False)"


text \<open>
  One turn of the loop of \<^verbatim>\<open>cm_main\<close> after \<^verbatim>\<open>os_queue_recv\<close> has returned: \<open>Some msg\<close> is
  a received message, \<open>None\<close> a timeout. The first component of the result is false when
  the thread has completed itself.
\<close>

definition cm_main_iter :: "driver \<Rightarrow> wlan \<Rightarrow> wifi_message option \<Rightarrow> bool \<times> wlan" where
  "cm_main_iter drv w recv =
     (if stop_request w
      then (False, emit OS_THREAD_SELF_COMPLETE (w\<lparr>status := WLCMGR_THREAD_STOPPED\<rparr>))
      else case recv of
        Some msg \<Rightarrow>
          (if is_uap_msg msg
           then (let (w1, next_uap_state) = uap_state_machine drv w msg
                 in (True, w1\<lparr>uap_state := next_uap_state\<rparr>))
           else (let (w1, next_sta_state) = handle_message drv w msg
                 in (True, w1\<lparr>sta_state := next_sta_state\<rparr>)))
      | None \<Rightarrow>
          (if \<not> is_state w CM_STA_CONNECTED then (True, w)
           else if g_req_sl_confirm w then (True, wlan_ieeeps_sm drv w IEEEPS_EVENT_SLEEP)
           else (True, w)))"

text \<open>A run of the dispatcher over received messages, each with what the driver answers.\<close>

fun cm_main_run :: "wlan \<Rightarrow> (driver \<times> wifi_message option) list \<Rightarrow> wlan" where
  "cm_main_run w [] = w"
| "cm_main_run w ((drv, recv) # rest) =
     (case cm_main_iter drv w recv of
        (True, w1) \<Rightarrow> cm_main_run w1 rest
      | (False, w1) \<Rightarrow> w1)"

section \<open>The rules of the specification and example inputs\<close>

text \<open>
  The rule of the specification for WPA/WPA2/mixed keys, in its own words: the length is
  in [8, 63], or the key is exactly 64 hexadecimal digits (ASCII \<open>0-9\<close>, \<open>A-F\<close>, \<open>a-f\<close>).
\<close>

definition is_hex_digit :: "char \<Rightarrow> bool" where
  "is_hex_digit c =
     ((48 \<le> (of_char c :: nat) \<and> (of_char c :: nat) \<le> 57) \<or>
      (65 \<le> (of_char c :: nat) \<and> (of_char c :: nat) \<le> 70) \<or>
      (97 \<le> (of_char c :: nat) \<and> (of_char c :: nat) \<le> 102))"

definition spec_psk_rule :: "wlan_network_security \<Rightarrow> bool" where
  "spec_psk_rule sec =
     ((8 \<le> unat (psk_len sec) \<and> unat (psk_len sec) \<le> 63) \<or>
      (unat (psk_len sec) = 64 \<and> list_all is_hex_digit (take 64 (psk sec))))"

text \<open>
  Example inputs: a running, idle manager with an empty store; a driver whose calls all
  succeed; a WPA2 station profile with a key of \<open>k\<close> characters \<open>c\<close>; a store whose five
  slots are taken.
\<close>

definition idle_wlan :: wlan where
  "idle_wlan = \<lparr>is_scan_lock = False, sta_state = CM_STA_IDLE, sta_ipv4_state = CM_STA_IDLE,
     sta_ipv6_state = CM_STA_IDLE, sta_return_to = CM_STA_IDLE, uap_state = CM_UAP_INITIALIZING,
     uap_mac = replicate 6 0, scan_cb = False, networks = replicate 5 zero_network,
     cur_network_idx = - 1, cur_uap_network_idx = - 1, num_networks = 0, scan_count = 0,
     running = True, stop_request = False, status = WLCMGR_ACTIVATED,
     cm_ps_state = PS_STATE_AWAKE, ieeeps_state = IEEEPS_INIT, ieeeps_prev_state = IEEEPS_INIT,
     deepsleepps_state = DEEPSLEEPPS_INIT, connect_wakelock_taken = False, assoc_paused = False,
     pending_assoc_request = False, reassoc_control = False, reassoc_request = False,
     reassoc_count = 0, hs_configured = False, hs_wakeup_condition = 0, hidden_scan_on = False,
     same_ess = False, roam_reassoc = False, g_req_sl_confirm = False, xfer_pending = False,
     trace = []\<rparr>"

definition drv0 :: driver where
  "drv0 = \<lparr>scan_cmd_ok = True, scan_result_count = Some 0, scan_results = [],
     chan_allowed = (\<lambda>_. True), pmfcfg = (False, False), hs_cfg_cmd_ok = True,
     wakeup_map = (\<lambda>x. x), mlan_handle = True, net_configure_address_ok = True,
     clear_wpa_psk_ok = True, add_wpa_key_ok = True, load_wep_key_ok = True, set_key_ok = True,
     assoc_ok = True, uap_start_ok = True, uap_stop_ok = True, active_chan_list = [],
     uap_default_channel = 6\<rparr>"

definition example_psk :: "nat \<Rightarrow> char \<Rightarrow> string" where
  "example_psk k c = replicate k c @ replicate (65 - k) (CHR 0x00)"

definition wpa2_profile :: "string \<Rightarrow> nat \<Rightarrow> char \<Rightarrow> wlan_network" where
  "wpa2_profile nm k c =
     zero_network\<lparr>name := nm, ssid := ''Home'',
       security := (security zero_network)
         \<lparr>sec_type := WLAN_SECURITY_WPA2, psk := example_psk k c, psk_len := of_nat k\<rparr>\<rparr>"


text \<open>
  Whether a scan result matches a profile (the hidden-channel list does not influence
  it), and the calls a step added to the trace.
\<close>

definition matches_scan_result :: "driver \<Rightarrow> wlan \<Rightarrow> wlan_network \<Rightarrow> wifi_scan_result2 \<Rightarrow> bool" where
  "matches_scan_result drv w network res =
     fst (network_matches_scan_result drv w network res [])"

definition new_actions :: "wlan \<Rightarrow> wlan \<Rightarrow> action list" where
  "new_actions w w' = drop (length (trace w)) (trace w')"

text \<open>
  More example inputs: an open station profile; an access point broadcasting its SSID
  with a given last BSSID byte and RSSI field; a manager that has the profile in slot 0
  and is scanning for it with the scan lock held; a driver that returns given results.
\<close>

definition open_profile :: wlan_network where
  "open_profile = zero_network\<lparr>name := ''home'', ssid := ''Home''\<rparr>"

definition example_ap :: "8 word \<Rightarrow> int \<Rightarrow> wifi_scan_result2" where
  "example_ap b r =
     \<lparr>res_bssid = [0, 1, 2, 3, 4, b], res_ssid = ''Home'' @ replicate 29 (CHR 0x00), ssid_len = 4,
      Channel = 6, RSSI = r, wepStatic = False, wpa = False, wpa2 = False,
      wpa2_sha256 = False, wpa3_sae = False, wpa_ucstCipher_tkip = False,
      phtcap_ie_present = True, res_is_pmf_required = False\<rparr>"

definition scanning_wlan :: "wlan_network \<Rightarrow> wlan" where
  "scanning_wlan n = idle_wlan\<lparr>networks := (replicate 5 zero_network)[0 := slot_contents n],
     num_networks := 1, cur_network_idx := 0, sta_state := CM_STA_SCANNING,
     is_scan_lock := True, scan_count := 1\<rparr>"

definition drv_results :: "wifi_scan_result2 option list \<Rightarrow> driver" where
  "drv_results rs = drv0\<lparr>scan_result_count := Some (length rs), scan_results := rs\<rparr>"

text \<open>A manager whose uAP profile (static address) sits in slot 0 and has been started.\<close>

definition uap_profile :: wlan_network where
  "uap_profile = zero_network\<lparr>name := ''uap'', ssid := ''my-ap'', role := WLAN_BSS_ROLE_UAP,
     net_type := WLAN_BSS_TYPE_UAP, ipv4_addr_type := ADDR_TYPE_STATIC,
     ipv4_address := 0xC0A80A01, ipv4_gw := 0xC0A80A01\<rparr>"

definition uap_configured_wlan :: wlan where
  "uap_configured_wlan = idle_wlan\<lparr>networks := (replicate 5 zero_network)[0 := slot_contents uap_profile],
     num_networks := 1, cur_uap_network_idx := 0, uap_state := CM_UAP_CONFIGURED\<rparr>"


text \<open>
  When \<^verbatim>\<open>wlan_host_sleep_and_sleep_confirm\<close> returns with \<^verbatim>\<open>g_req_sl_confirm\<close> set instead of
  sending the sleep confirm: a transfer is pending, or host sleep is configured and
  either the host-sleep command fails or neither the uAP is started nor the station
  connected. A connected station whose IEEE power-save machine is awake.
\<close>

definition sleep_confirm_deferred :: "driver \<Rightarrow> wlan \<Rightarrow> bool" where
  "sleep_confirm_deferred drv w =
     (xfer_pending w \<or>
      (hs_configured w \<and>
       (fst (wlan_send_host_sleep_int drv w (hs_wakeup_condition w) False) \<noteq> WM_SUCCESS \<or>
        (\<not> is_uap_started w \<and> \<not> is_state w CM_STA_CONNECTED))))"







text \<open>
  The bound on \<^verbatim>\<open>scan_count\<close>; the scan results in which the loop of \<^verbatim>\<open>handle_scan_results\<close>
  finds no match for the current profile and collects no hidden-SSID channel; an access
  point that hides its SSID.
\<close>

definition scan_count_bounded :: "wlan \<Rightarrow> bool" where
  "scan_count_bounded w = (unat (scan_count w) \<le> WLAN_RESCAN_LIMIT)"

definition no_match_found :: "driver \<Rightarrow> wlan \<Rightarrow> bool" where
  "no_match_found drv w =
     (select_best_ap drv (w\<lparr>sta_state := CM_STA_ASSOCIATING\<rparr>) (net_at w (cur_network_idx w))
        (scan_result_list drv) None [] = (None, []))"

definition hidden_ap :: wifi_scan_result2 where
  "hidden_ap = (example_ap 9 50)\<lparr>res_ssid := replicate 33 (CHR 0x00)\<rparr>"


section \<open>Properties of the profile store\<close>

lemma not_hex_digit_iff: "not_hex_digit c \<longleftrightarrow> \<not> is_hex_digit c"
  by (auto simp: not_hex_digit_def is_hex_digit_def)

lemma isHexNumber_iff: "isHexNumber str len \<longleftrightarrow> list_all is_hex_digit (take len str)"
  by (induction str len rule: isHexNumber.induct) (auto simp: not_hex_digit_iff split: nat.splits)

lemma wlan_is_key_valid_wpa:
  "sec_type (security n) \<in> {WLAN_SECURITY_WPA, WLAN_SECURITY_WPA2, WLAN_SECURITY_WPA_WPA2_MIXED}
   \<Longrightarrow> wlan_is_key_valid n = spec_psk_rule (security n)"
  by (auto simp: wlan_is_key_valid_def spec_psk_rule_def Let_def isHexNumber_iff
        WLAN_PSK_MIN_LENGTH_def WLAN_PSK_MAX_LENGTH_def)



lemma find_slot_keeps_pos:
  "find_slot ns nm i pos = Inr p \<Longrightarrow> pos \<noteq> - 1 \<Longrightarrow> p = pos"
  by (induction ns nm i pos rule: find_slot.induct) (auto split: if_splits)

lemma find_slot_free:
  "find_slot ns nm i (- 1) = Inr p \<Longrightarrow>
     (p = - 1 \<and> (\<forall>s \<in> set ns. name s \<noteq> [])) \<or>
     (int i \<le> p \<and> p < int i + int (length ns) \<and> name (ns ! nat (p - int i)) = [])"
proof (induction ns arbitrary: i)
  case Nil
  then show ?case by simp
next
  case (Cons s rest)
  show ?case
  proof (cases "name s = []")
    case True
    with Cons.prems have "find_slot rest nm (i + 1) (int i) = Inr p" by simp
    then have "p = int i" using find_slot_keeps_pos by fastforce
    with True show ?thesis by simp
  next
    case False
    with Cons.prems have *: "find_slot rest nm (i + 1) (- 1) = Inr p"
      by (simp split: if_splits)
    from Cons.IH[OF *] show ?thesis
    proof
      assume "p = - 1 \<and> (\<forall>s\<in>set rest. name s \<noteq> [])"
      with False show ?thesis by simp
    next
      assume a: "int (i + 1) \<le> p \<and> p < int (i + 1) + int (length rest) \<and>
                 name (rest ! nat (p - int (i + 1))) = []"
      then have "nat (p - int i) = Suc (nat (p - int (i + 1)))" by arith
      with a show ?thesis by simp
    qed
  qed
qed

lemma find_slot_total:
  "nm \<notin> name ` set ns \<Longrightarrow> \<exists>p. find_slot ns nm i pos = Inr p"
  by (induction ns nm i pos rule: find_slot.induct) (auto simp: strncmp_eq_def)




lemma name_fix_type_and_caps [simp]: "name (fix_type_and_caps n) = name n"
  by (simp add: fix_type_and_caps_def Let_def)

lemma name_slot_contents [simp]: "name (slot_contents n) = name n"
  by (simp add: slot_contents_def Let_def)

lemma profile_checks_name:
  "profile_checks w n = None \<Longrightarrow> name n \<noteq> [] \<and> length (name n) < 32"
  by (auto simp: profile_checks_def Let_def WLAN_NETWORK_NAME_MIN_LENGTH_def
        WLAN_NETWORK_NAME_MAX_LENGTH_def split: if_splits)




lemma name_zero_network [simp]: "name zero_network = []"
  by (simp add: zero_network_def)









lemma add_success:
  assumes chk: "profile_checks w n = None" and key: "wlan_is_key_valid n"
    and fresh: "name n \<notin> stored_names w"
    and free: "\<exists>s \<in> set (networks w). name s = []"
    and drv: "clear_wpa_psk_ok drv"
  shows "fst (wlan_add_network drv w (Some n)) = WM_SUCCESS"
proof -
  from chk have nm: "name n \<noteq> []" using profile_checks_name by blast
  from fresh nm have notin: "name n \<notin> name ` set (networks w)"
    by (auto simp: stored_names_def)
  then obtain p where p: "find_slot (networks w) (name n) 0 (- 1) = Inr p"
    using find_slot_total by blast
  from find_slot_free[OF p] free have "\<not> p < 0" by auto
  with p chk key drv show ?thesis
    by (simp add: wlan_add_network_def Let_def)
qed


text \<open>
  Claim C4. For a profile of security type WPA, WPA2 or WPA/WPA2-mixed, the key check of
  \<^verbatim>\<open>wlan_add_network\<close> accepts the key exactly when the PSK length is in [8, 63] or the
  PSK is 64 hexadecimal digits (the first 64 bytes of the buffer \<^verbatim>\<open>psk\<close>). So when the
  checks before it pass, the name is new, a slot is free and the driver call succeeds,
  the call returns success for such a key and \<^verbatim>\<open>-WM_E_INVAL\<close> for any other: length 7
  and a 64-character key with a non-hex character are rejected, lengths 8 and 63 accepted.
\<close>

theorem wpa_psk_accepted_iff:
  assumes "sec_type (security n) \<in>
             {WLAN_SECURITY_WPA, WLAN_SECURITY_WPA2, WLAN_SECURITY_WPA_WPA2_MIXED}"
    and "profile_checks w n = None"
    and "name n \<notin> stored_names w"
    and "\<exists>s \<in> set (networks w). name s = []"
    and "clear_wpa_psk_ok drv"
  shows "wlan_is_key_valid n = spec_psk_rule (security n) \<and>
         fst (wlan_add_network drv w (Some n)) =
           (if spec_psk_rule (security n) then WM_SUCCESS else E_INVAL)"
proof -
  have v: "wlan_is_key_valid n = spec_psk_rule (security n)"
    using assms(1) by (rule wlan_is_key_valid_wpa)
  show ?thesis
  proof (cases "spec_psk_rule (security n)")
    case True
    with v assms add_success[of w n drv] show ?thesis by simp
  next
    case False
    with v assms(2) show ?thesis by (simp add: wlan_add_network_def)
  qed
qed


theorem wpa_psk_accepted_iff_witness:
  "fst (wlan_add_network drv0 idle_wlan (Some (wpa2_profile ''home'' 7 (CHR ''x'')))) = E_INVAL \<and>
   fst (wlan_add_network drv0 idle_wlan (Some (wpa2_profile ''home'' 8 (CHR ''x'')))) = WM_SUCCESS \<and>
   fst (wlan_add_network drv0 idle_wlan (Some (wpa2_profile ''home'' 63 (CHR ''x'')))) = WM_SUCCESS \<and>
   fst (wlan_add_network drv0 idle_wlan (Some (wpa2_profile ''home'' 64 (CHR ''x'')))) = E_INVAL \<and>
   fst (wlan_add_network drv0 idle_wlan (Some (wpa2_profile ''home'' 64 (CHR ''f'')))) = WM_SUCCESS"
proof -
  have ty: "sec_type (security (wpa2_profile ''home'' k c)) \<in>
              {WLAN_SECURITY_WPA, WLAN_SECURITY_WPA2, WLAN_SECURITY_WPA_WPA2_MIXED}" for k c
    by (simp add: wpa2_profile_def)
  have chk: "profile_checks idle_wlan (wpa2_profile ''home'' k c) = None" for k c
    by (simp add: profile_checks_def wpa2_profile_def idle_wlan_def zero_network_def
          is_running_def is_state_def is_user_scanning_def Let_def
          WLAN_NETWORK_NAME_MIN_LENGTH_def WLAN_NETWORK_NAME_MAX_LENGTH_def)
  have fresh: "name (wpa2_profile ''home'' k c) \<notin> stored_names idle_wlan" for k c
    by (simp add: wpa2_profile_def stored_names_def idle_wlan_def)
  have free: "\<exists>s \<in> set (networks idle_wlan). name s = []"
    by (simp add: idle_wlan_def)
  have drv: "clear_wpa_psk_ok drv0" by (simp add: drv0_def)
  note th = wpa_psk_accepted_iff [OF ty chk fresh free drv]
  have r7: "spec_psk_rule (security (wpa2_profile ''home'' 7 (CHR ''x''))) = False"
    by code_simp
  have r8: "spec_psk_rule (security (wpa2_profile ''home'' 8 (CHR ''x''))) = True"
    by code_simp
  have r63: "spec_psk_rule (security (wpa2_profile ''home'' 63 (CHR ''x''))) = True"
    by code_simp
  have r64x: "spec_psk_rule (security (wpa2_profile ''home'' 64 (CHR ''x''))) = False"
    by code_simp
  have r64f: "spec_psk_rule (security (wpa2_profile ''home'' 64 (CHR ''f''))) = True"
    by code_simp
  show ?thesis
    using th [of 7 "CHR ''x''"] th [of 8 "CHR ''x''"] th [of 63 "CHR ''x''"]
      th [of 64 "CHR ''x''"] th [of 64 "CHR ''f''"]
    by (simp only: r7 r8 r63 r64x r64f if_True if_False simp_thms)
qed


text \<open>
  Claim C5. \<^verbatim>\<open>wlan_add_network\<close> is documented in wlan.h to take names of
  \<^verbatim>\<open>WLAN_NETWORK_NAME_MIN_LENGTH\<close> to \<^verbatim>\<open>WLAN_NETWORK_NAME_MAX_LENGTH\<close> (1 to 32)
  characters, and \<^verbatim>\<open>name\<close> has room for 32 characters and the NUL. The length check
  compares with \<^verbatim>\<open>>=\<close>: on an idle manager with an empty store, a valid WPA2 profile
  with a name of 32 characters is rejected with \<^verbatim>\<open>-WM_E_INVAL\<close>, while the same profile
  with a name of 31 characters is stored.
\<close>

theorem name_of_32_chars_rejected:
  "fst (wlan_add_network drv0 idle_wlan
          (Some (wpa2_profile (replicate 32 (CHR ''a'')) 8 (CHR ''x'')))) = E_INVAL \<and>
   fst (wlan_add_network drv0 idle_wlan
          (Some (wpa2_profile (replicate 31 (CHR ''a'')) 8 (CHR ''x'')))) = WM_SUCCESS"
  by code_simp

section \<open>Properties of the connection manager\<close>

subsection \<open>Selection among scan results\<close>

lemma fst_network_matches:
  "fst (network_matches_scan_result drv w network res cl) = matches_scan_result drv w network res"
  by (simp add: network_matches_scan_result_def matches_scan_result_def Let_def)

lemma select_best_ap_Some:
  "select_best_ap drv w network rs best cl = (Some b, cl') \<Longrightarrow>
     ((Some b \<in> set rs \<and> matches_scan_result drv w network b) \<or> best = Some b) \<and>
     (\<forall>r. Some r \<in> set rs \<and> matches_scan_result drv w network r \<longrightarrow> RSSI b \<le> RSSI r) \<and>
     (\<forall>b0. best = Some b0 \<longrightarrow> RSSI b \<le> RSSI b0)"
proof (induction rs arbitrary: best cl)
  case Nil
  then show ?case by simp
next
  case (Cons x rs)
  show ?case
  proof (cases x)
    case None
    with Cons.prems have "select_best_ap drv w network rs best cl = (Some b, cl')" by simp
    from Cons.IH[OF this] None show ?thesis by auto
  next
    case (Some res)
    obtain ret cl1 where m: "network_matches_scan_result drv w network res cl = (ret, cl1)"
      by (cases "network_matches_scan_result drv w network res cl")
    then have ret: "ret = matches_scan_result drv w network res"
      using fst_network_matches[of drv w network res cl] by simp
    show ?thesis
    proof (cases ret)
      case False
      with Cons.prems Some m have "select_best_ap drv w network rs best cl1 = (Some b, cl')"
        by simp
      from Cons.IH[OF this] Some False ret show ?thesis by auto
    next
      case True
      show ?thesis
      proof (cases best)
        case None
        with Cons.prems Some m True
        have "select_best_ap drv w network rs (Some res) cl1 = (Some b, cl')" by simp
        from Cons.IH[OF this] Some True ret None show ?thesis by auto
      next
        case (Some best_ap)
        show ?thesis
        proof (cases "RSSI best_ap > RSSI res")
          case True
          with Cons.prems \<open>x = Some res\<close> m \<open>ret\<close> Some
          have "select_best_ap drv w network rs (Some res) cl1 = (Some b, cl')" by simp
          from Cons.IH[OF this] \<open>x = Some res\<close> \<open>ret\<close> ret Some True show ?thesis by auto
        next
          case False
          with Cons.prems \<open>x = Some res\<close> m \<open>ret\<close> Some
          have "select_best_ap drv w network rs (Some best_ap) cl1 = (Some b, cl')" by simp
          from Cons.IH[OF this] \<open>x = Some res\<close> \<open>ret\<close> ret Some False show ?thesis by auto
        qed
      qed
    qed
  qed
qed

lemma select_best_ap_None:
  "fst (select_best_ap drv w network rs best cl) = None \<longleftrightarrow>
     best = None \<and> \<not> (\<exists>r. Some r \<in> set rs \<and> matches_scan_result drv w network r)"
proof (induction rs arbitrary: best cl)
  case Nil
  then show ?case by simp
next
  case (Cons x rs)
  show ?case
  proof (cases x)
    case None
    with Cons.IH[of best cl] show ?thesis by simp
  next
    case (Some res)
    obtain ret cl1 where m: "network_matches_scan_result drv w network res cl = (ret, cl1)"
      by (cases "network_matches_scan_result drv w network res cl")
    then have ret: "ret = matches_scan_result drv w network res"
      using fst_network_matches[of drv w network res cl] by simp
    show ?thesis
      using Some m ret Cons.IH[of best cl1] Cons.IH[of "Some res" cl1]
      by (cases best) auto
  qed
qed

text \<open>
  Claim C1, as amended. The field \<^verbatim>\<open>RSSI\<close> of a scan result is replaced in \<^verbatim>\<open>best_ap\<close>
  only when \<^verbatim>\<open>best_ap->RSSI > res->RSSI\<close>, so among the results that match the profile
  the loop of \<^verbatim>\<open>handle_scan_results\<close> selects one whose RSSI field is numerically least
  (the field holds the magnitude of a negative dBm value, so this is the strongest
  signal); it selects none exactly when no result matches.
\<close>

theorem lowest_rssi_value_selected:
  assumes "select_best_ap drv w network rs None [] = (best, cl)"
  shows "(best = None \<longleftrightarrow>
            \<not> (\<exists>r. Some r \<in> set rs \<and> matches_scan_result drv w network r)) \<and>
         (\<forall>b. best = Some b \<longrightarrow>
            Some b \<in> set rs \<and> matches_scan_result drv w network b \<and>
            (\<forall>r. Some r \<in> set rs \<and> matches_scan_result drv w network r \<longrightarrow>
                 RSSI b \<le> RSSI r))"
proof -
  have "fst (select_best_ap drv w network rs None []) = best" using assms by simp
  then have a: "best = None \<longleftrightarrow>
      \<not> (\<exists>r. Some r \<in> set rs \<and> matches_scan_result drv w network r)"
    using select_best_ap_None[of drv w network rs None "[]"] by simp
  have b: "Some b \<in> set rs \<and> matches_scan_result drv w network b \<and>
            (\<forall>r. Some r \<in> set rs \<and> matches_scan_result drv w network r \<longrightarrow>
                 RSSI b \<le> RSSI r)" if "best = Some b" for b
    using select_best_ap_Some[of drv w network rs None "[]" b cl] assms that by simp
  from a b show ?thesis by blast
qed

theorem lowest_rssi_value_selected_witness:
  "select_best_ap (drv_results [Some (example_ap 1 40), Some (example_ap 2 60)])
      (scanning_wlan open_profile) (slot_contents open_profile)
      [Some (example_ap 1 40), Some (example_ap 2 60)] None [] = (Some (example_ap 1 40), []) \<and>
   matches_scan_result (drv_results [Some (example_ap 1 40), Some (example_ap 2 60)])
      (scanning_wlan open_profile) (slot_contents open_profile) (example_ap 1 40) \<and>
   RSSI (example_ap 1 40) \<le> RSSI (example_ap 2 60)"
proof -
  have sel: "select_best_ap (drv_results [Some (example_ap 1 40), Some (example_ap 2 60)])
      (scanning_wlan open_profile) (slot_contents open_profile)
      [Some (example_ap 1 40), Some (example_ap 2 60)] None [] = (Some (example_ap 1 40), [])"
    by code_simp
  have m: "matches_scan_result (drv_results [Some (example_ap 1 40), Some (example_ap 2 60)])
      (scanning_wlan open_profile) (slot_contents open_profile) (example_ap 2 60)"
    by code_simp
  show ?thesis
    using sel m lowest_rssi_value_selected [OF sel] by auto
qed

text \<open>
  Claim C1 as stated fails: of two matching access points with RSSI fields 40 and 60 the
  one with the numerically smaller field, 40, is selected and associated with.
\<close>

theorem highest_rssi_value_not_selected:
  "fst (select_best_ap (drv_results [Some (example_ap 1 40), Some (example_ap 2 60)])
      (scanning_wlan open_profile) (slot_contents open_profile)
      [Some (example_ap 1 40), Some (example_ap 2 60)] None []) = Some (example_ap 1 40) \<and>
   matches_scan_result (drv_results [Some (example_ap 1 40), Some (example_ap 2 60)])
      (scanning_wlan open_profile) (slot_contents open_profile) (example_ap 2 60) \<and>
   RSSI (example_ap 1 40) < RSSI (example_ap 2 60) \<and>
   trace (handle_scan_results (drv_results [Some (example_ap 1 40), Some (example_ap 2 60)])
      (scanning_wlan open_profile)) = [WRAPPER_WIFI_ASSOC [0, 1, 2, 3, 4, 1] WLAN_SECURITY_NONE] \<and>
   trace (handle_scan_results (drv_results [Some (example_ap 2 60), Some (example_ap 1 40)])
      (scanning_wlan open_profile)) = [WRAPPER_WIFI_ASSOC [0, 1, 2, 3, 4, 1] WLAN_SECURITY_NONE]"
  by code_simp

subsection \<open>User requests\<close>

text \<open>
  Claim C6, as amended. The state that decides is the one \<^verbatim>\<open>is_state\<close> reads: the stashed
  \<^verbatim>\<open>sta_return_to\<close> while a user scan is in progress, \<^verbatim>\<open>sta_state\<close> otherwise. A scan
  request processed while that state is neither IDLE nor CONNECTED is dropped: no scan
  command is issued, the scan lock is released, \<^verbatim>\<open>is_scan_lock\<close> becomes 0 and nothing else
  changes.
\<close>

theorem scan_request_dropped:
  assumes "\<not> stop_request w" "\<not> is_state w CM_STA_IDLE" "\<not> is_state w CM_STA_CONNECTED"
  shows "cm_main_iter drv w (Some (CM_STA_USER_REQUEST_SCAN p)) =
           (True, w\<lparr>is_scan_lock := False, trace := trace w @ [OS_SEMAPHORE_PUT_SCAN_LOCK]\<rparr>)"
  using assms
  by (simp add: cm_main_iter_def is_uap_msg_def handle_message_def wlcm_request_scan_def
        is_scanning_allowed_def release_scan_lock_def emit_def Let_def)

theorem scan_request_dropped_witness:
  "cm_main_iter drv0 ((scanning_wlan open_profile)\<lparr>sta_state := CM_STA_ASSOCIATING\<rparr>)
      (Some (CM_STA_USER_REQUEST_SCAN True)) =
     (True, (scanning_wlan open_profile)\<lparr>sta_state := CM_STA_ASSOCIATING, is_scan_lock := False,
               trace := [OS_SEMAPHORE_PUT_SCAN_LOCK]\<rparr>)"
proof -
  have a: "\<not> stop_request ((scanning_wlan open_profile)\<lparr>sta_state := CM_STA_ASSOCIATING\<rparr>)"
    by (simp add: scanning_wlan_def idle_wlan_def)
  have b: "\<not> is_state ((scanning_wlan open_profile)\<lparr>sta_state := CM_STA_ASSOCIATING\<rparr>) CM_STA_IDLE"
    by (simp add: is_state_def is_user_scanning_def)
  have c: "\<not> is_state ((scanning_wlan open_profile)\<lparr>sta_state := CM_STA_ASSOCIATING\<rparr>)
              CM_STA_CONNECTED"
    by (simp add: is_state_def is_user_scanning_def)
  have t: "trace (scanning_wlan open_profile) = []"
    by (simp add: scanning_wlan_def idle_wlan_def)
  show ?thesis
    using scan_request_dropped [OF a b c, of drv0 True] t by simp
qed

text \<open>
  Claim C6 as stated fails in the state SCANNING_USER, which is neither IDLE nor
  CONNECTED: with the stashed state IDLE the request is not dropped, a scan command is
  issued and the lock stays held.
\<close>

theorem scan_request_during_user_scan_not_dropped:
  "trace (snd (cm_main_iter drv0
      ((scanning_wlan open_profile)\<lparr>sta_state := CM_STA_SCANNING_USER, sta_return_to := CM_STA_IDLE\<rparr>)
      (Some (CM_STA_USER_REQUEST_SCAN True)))) = [WIFI_SEND_SCAN_CMD False] \<and>
   is_scan_lock (snd (cm_main_iter drv0
      ((scanning_wlan open_profile)\<lparr>sta_state := CM_STA_SCANNING_USER, sta_return_to := CM_STA_IDLE\<rparr>)
      (Some (CM_STA_USER_REQUEST_SCAN True)))) = True"
  by code_simp




subsection \<open>The uAP state machine\<close>

lemma uap_started_event:
  assumes "\<not> stop_request w" "uap_state w = CM_UAP_CONFIGURED"
  shows "uap_state (snd (cm_main_iter drv w (Some (WIFI_EVENT_UAP_STARTED True)))) =
           (if net_configure_address_ok drv then CM_UAP_STARTED else CM_UAP_CONFIGURED) \<and>
         new_actions w (snd (cm_main_iter drv w (Some (WIFI_EVENT_UAP_STARTED True)))) =
           (if net_configure_address_ok drv then [NET_CONFIGURE_ADDRESS]
            else [NET_CONFIGURE_ADDRESS, CONNECTION_EVENT WLAN_REASON_ADDRESS_FAILED])"
  using assms
  by (simp add: cm_main_iter_def is_uap_msg_def uap_state_machine_def is_uap_state_def
        emit_def set_net_def new_actions_def Let_def)

lemma uap_addr_config_event:
  assumes "\<not> stop_request w" "uap_state w = CM_UAP_STARTED"
  shows "uap_state (snd (cm_main_iter drv w (Some (WIFI_EVENT_UAP_NET_ADDR_CONFIG ok)))) =
           (if ok \<and> ipv4_addr_type (net_at w (cur_uap_network_idx w)) = ADDR_TYPE_STATIC
            then CM_UAP_IP_UP else CM_UAP_INITIALIZING) \<and>
         new_actions w (snd (cm_main_iter drv w (Some (WIFI_EVENT_UAP_NET_ADDR_CONFIG ok)))) =
           (if ok \<and> ipv4_addr_type (net_at w (cur_uap_network_idx w)) = ADDR_TYPE_STATIC
            then [NET_GET_IF_ADDR, CONNECTION_EVENT WLAN_REASON_UAP_SUCCESS]
            else [CONNECTION_EVENT WLAN_REASON_ADDRESS_FAILED])"
  using assms
  by (simp add: cm_main_iter_def is_uap_msg_def uap_state_machine_def is_uap_state_def
        emit_def set_net_def new_actions_def Let_def)

text \<open>
  Claim C9. In the state CONFIGURED a successful UAP_STARTED event makes the manager
  configure the IP address, and the uAP state becomes STARTED when that call succeeds
  (when it fails, \<^verbatim>\<open>WLAN_REASON_ADDRESS_FAILED\<close> is emitted and the state stays CONFIGURED).
  In the state STARTED, the address-configuration event leads to IP_UP with the callback
  \<^verbatim>\<open>WLAN_REASON_UAP_SUCCESS\<close> when it reports success and the profile has a static address,
  and otherwise to the callback \<^verbatim>\<open>WLAN_REASON_ADDRESS_FAILED\<close> and the state INITIALIZING,
  so that IP_UP is not reached.
\<close>

theorem uap_address_configuration:
  assumes "\<not> stop_request w"
    and "0 \<le> cur_uap_network_idx w" "nat (cur_uap_network_idx w) < length (networks w)"
  shows "(uap_state w = CM_UAP_CONFIGURED \<longrightarrow>
            uap_state (snd (cm_main_iter drv w (Some (WIFI_EVENT_UAP_STARTED True)))) =
              (if net_configure_address_ok drv then CM_UAP_STARTED else CM_UAP_CONFIGURED) \<and>
            new_actions w (snd (cm_main_iter drv w (Some (WIFI_EVENT_UAP_STARTED True)))) =
              (if net_configure_address_ok drv then [NET_CONFIGURE_ADDRESS]
               else [NET_CONFIGURE_ADDRESS, CONNECTION_EVENT WLAN_REASON_ADDRESS_FAILED])) \<and>
         (uap_state w = CM_UAP_STARTED \<longrightarrow>
            uap_state (snd (cm_main_iter drv w (Some (WIFI_EVENT_UAP_NET_ADDR_CONFIG ok)))) =
              (if ok \<and> ipv4_addr_type (net_at w (cur_uap_network_idx w)) = ADDR_TYPE_STATIC
               then CM_UAP_IP_UP else CM_UAP_INITIALIZING) \<and>
            new_actions w (snd (cm_main_iter drv w (Some (WIFI_EVENT_UAP_NET_ADDR_CONFIG ok)))) =
              (if ok \<and> ipv4_addr_type (net_at w (cur_uap_network_idx w)) = ADDR_TYPE_STATIC
               then [NET_GET_IF_ADDR, CONNECTION_EVENT WLAN_REASON_UAP_SUCCESS]
               else [CONNECTION_EVENT WLAN_REASON_ADDRESS_FAILED]))"
  using uap_started_event [OF assms(1), of drv] uap_addr_config_event [OF assms(1), of drv ok]
  by blast

theorem uap_address_configuration_witness:
  "uap_state (cm_main_run (uap_configured_wlan)
      [(drv0, Some (WIFI_EVENT_UAP_STARTED True))]) = CM_UAP_STARTED \<and>
   uap_state (cm_main_run (uap_configured_wlan)
      [(drv0, Some (WIFI_EVENT_UAP_STARTED True)),
       (drv0, Some (WIFI_EVENT_UAP_NET_ADDR_CONFIG True))]) = CM_UAP_IP_UP \<and>
   trace (cm_main_run (uap_configured_wlan)
      [(drv0, Some (WIFI_EVENT_UAP_STARTED True)),
       (drv0, Some (WIFI_EVENT_UAP_NET_ADDR_CONFIG True))]) =
     [NET_CONFIGURE_ADDRESS, NET_GET_IF_ADDR, CONNECTION_EVENT WLAN_REASON_UAP_SUCCESS] \<and>
   uap_state (snd (cm_main_iter drv0 (uap_configured_wlan\<lparr>uap_state := CM_UAP_STARTED\<rparr>)
      (Some (WIFI_EVENT_UAP_NET_ADDR_CONFIG False)))) = CM_UAP_INITIALIZING \<and>
   trace (snd (cm_main_iter drv0 (uap_configured_wlan\<lparr>uap_state := CM_UAP_STARTED\<rparr>)
      (Some (WIFI_EVENT_UAP_NET_ADDR_CONFIG False)))) =
     [CONNECTION_EVENT WLAN_REASON_ADDRESS_FAILED]"
proof -
  have a: "\<not> stop_request uap_configured_wlan" by code_simp
  have b: "0 \<le> cur_uap_network_idx uap_configured_wlan" by code_simp
  have c: "nat (cur_uap_network_idx uap_configured_wlan) < length (networks uap_configured_wlan)"
    by code_simp
  have a': "\<not> stop_request (uap_configured_wlan\<lparr>uap_state := CM_UAP_STARTED\<rparr>)" by code_simp
  have b': "0 \<le> cur_uap_network_idx (uap_configured_wlan\<lparr>uap_state := CM_UAP_STARTED\<rparr>)"
    by code_simp
  have c': "nat (cur_uap_network_idx (uap_configured_wlan\<lparr>uap_state := CM_UAP_STARTED\<rparr>))
              < length (networks (uap_configured_wlan\<lparr>uap_state := CM_UAP_STARTED\<rparr>))"
    by code_simp
  have run: "uap_state (cm_main_run (uap_configured_wlan)
      [(drv0, Some (WIFI_EVENT_UAP_STARTED True)),
       (drv0, Some (WIFI_EVENT_UAP_NET_ADDR_CONFIG True))]) = CM_UAP_IP_UP \<and>
   trace (cm_main_run (uap_configured_wlan)
      [(drv0, Some (WIFI_EVENT_UAP_STARTED True)),
       (drv0, Some (WIFI_EVENT_UAP_NET_ADDR_CONFIG True))]) =
     [NET_CONFIGURE_ADDRESS, NET_GET_IF_ADDR, CONNECTION_EVENT WLAN_REASON_UAP_SUCCESS] \<and>
   uap_state (cm_main_run (uap_configured_wlan)
      [(drv0, Some (WIFI_EVENT_UAP_STARTED True))]) = CM_UAP_STARTED \<and>
   trace (uap_configured_wlan\<lparr>uap_state := CM_UAP_STARTED\<rparr>) = [] \<and>
   uap_state uap_configured_wlan = CM_UAP_CONFIGURED"
    by code_simp
  have ok: "net_configure_address_ok drv0" by code_simp
  show ?thesis
    using run ok uap_address_configuration [OF a b c, of drv0 True]
      uap_address_configuration [OF a' b' c', of drv0 False]
    by (simp add: new_actions_def)
qed

section \<open>Properties of power save\<close>

lemma hs_int_frame [simp]:
  "is_uap_started (snd (wlan_send_host_sleep_int drv w c k)) = is_uap_started w"
  "is_state (snd (wlan_send_host_sleep_int drv w c k)) s = is_state w s"
  "ieeeps_state (snd (wlan_send_host_sleep_int drv w c k)) = ieeeps_state w"
  "cm_ps_state (snd (wlan_send_host_sleep_int drv w c k)) = cm_ps_state w"
  "g_req_sl_confirm (snd (wlan_send_host_sleep_int drv w c k)) = g_req_sl_confirm w"
  by (auto simp: wlan_send_host_sleep_int_def Let_def is_uap_started_def is_uap_state_def
        is_state_def is_user_scanning_def emit_def wlan_get_ipv4_addr_def)


lemma hsasc_unfold:
  "wlan_host_sleep_and_sleep_confirm drv w =
     (if sleep_confirm_deferred drv w
      then (if xfer_pending w \<or> \<not> hs_configured w then w
            else snd (wlan_send_host_sleep_int drv w (hs_wakeup_condition w) False))
           \<lparr>g_req_sl_confirm := True\<rparr>
      else (emit (SEND_SLEEP_CONFIRM_COMMAND WLAN_BSS_TYPE_STA)
              ((if hs_configured w
                then snd (wlan_send_host_sleep_int drv w (hs_wakeup_condition w) False)
                else w)\<lparr>cm_ps_state := PS_STATE_SLEEP_CFM\<rparr>))\<lparr>g_req_sl_confirm := False\<rparr>)"
  by (auto simp: wlan_host_sleep_and_sleep_confirm_def sleep_confirm_deferred_def Let_def
        case_prod_beta)













section \<open>Properties of the rescan counter\<close>

lemma sc_emit [simp]: "scan_count (emit a w) = scan_count w"
  by (simp add: emit_def)

lemma sc_set_net [simp]: "scan_count (set_net i n w) = scan_count w"
  by (simp add: set_net_def)

lemma net_at_emit [simp]: "net_at (emit a w) i = net_at w i"
  by (simp add: emit_def net_at_def)

lemma sc_release [simp]: "scan_count (release_scan_lock w) = scan_count w"
  by (simp add: release_scan_lock_def)

lemma sc_failed [simp]: "scan_count (do_connect_failed r w) = scan_count w"
  by (simp add: do_connect_failed_def Let_def)

lemma sc_report [simp]: "scan_count (report_scan_results w) = scan_count w"
  by (simp add: report_scan_results_def)

lemma sc_update [simp]: "scan_count (update_network_params i res w) = scan_count w"
  by (simp add: update_network_params_def Let_def)

lemma sc_configure [simp]: "scan_count (snd (configure_security drv i res w)) = scan_count w"
  by (simp add: configure_security_def Let_def)

lemma sc_assoc [simp]: "scan_count (snd (start_association drv i res w)) = scan_count w"
  using sc_configure[of drv i res "w\<lparr>roam_reassoc := False\<rparr>"]
  by (cases "configure_security drv i res (w\<lparr>roam_reassoc := False\<rparr>)")
     (simp add: start_association_def Let_def)

lemma sc_do_scan:
  "scan_count (do_scan drv w) = (if scan_cmd_ok drv then scan_count w + 1 else scan_count w)"
  by (simp add: do_scan_def Let_def)

lemma sc_do_hidden_scan [simp]: "scan_count (do_hidden_scan drv w chans) = scan_count w"
  by (simp add: do_hidden_scan_def Let_def)

lemma sc_do_connect:
  "scan_count (snd (do_connect drv w i)) =
     (if role (net_at w i) \<noteq> WLAN_BSS_ROLE_STA then scan_count w
      else if scan_cmd_ok drv then 1 else 0)"
  by (simp add: do_connect_def sc_do_scan)

lemma sc_request_connect:
  "scan_count (wlcm_request_connect drv w data) =
     (if role (net_at w data) \<noteq> WLAN_BSS_ROLE_STA then scan_count w
      else if scan_cmd_ok drv then 1 else 0)"
  by (simp add: wlcm_request_connect_def Let_def case_prod_beta sc_do_connect)

lemma unat_succ_le:
  assumes "unat (x :: 32 word) < 5"
  shows "unat (x + 1) \<le> 5"
proof -
  from assms have "unat x + unat (1 :: 32 word) < 2 ^ LENGTH(32)" by simp
  then have "unat (x + 1) = unat x + unat (1 :: 32 word)" by (simp only: unat_add_lem)
  with assms show ?thesis by simp
qed

lemma bounded_do_scan:
  "unat (scan_count w) < WLAN_RESCAN_LIMIT \<Longrightarrow> scan_count_bounded (do_scan drv w)"
  using unat_succ_le[of "scan_count w"]
  by (simp add: sc_do_scan scan_count_bounded_def WLAN_RESCAN_LIMIT_def)

lemma bounded_request_connect:
  "scan_count_bounded w \<Longrightarrow> scan_count_bounded (wlcm_request_connect drv w data)"
  by (simp add: sc_request_connect scan_count_bounded_def WLAN_RESCAN_LIMIT_def)

lemma bounded_request_reconnect:
  assumes "scan_count_bounded w"
  shows "scan_count_bounded (wlcm_request_reconnect drv w)"
proof (cases "unat (reassoc_count w) < WLAN_RECONNECT_LIMIT")
  case True
  have "scan_count_bounded (w\<lparr>reassoc_request := True, reassoc_count := reassoc_count w + 1\<rparr>)"
    using assms by (simp add: scan_count_bounded_def)
  from bounded_request_connect[OF this] True show ?thesis
    by (simp add: wlcm_request_reconnect_def Let_def)
next
  case False
  with assms show ?thesis
    by (simp add: wlcm_request_reconnect_def Let_def wlan_disconnect_def scan_count_bounded_def)
qed

lemma bounded_fallback:
  assumes "scan_count_bounded w"
  shows "scan_count_bounded (scan_results_fallback drv w)"
proof (cases "roam_reassoc w")
  case True
  with assms show ?thesis by (simp add: scan_results_fallback_def scan_count_bounded_def)
next
  case False
  show ?thesis
  proof (cases "unat (scan_count w) < WLAN_RESCAN_LIMIT")
    case True
    then have "unat (scan_count (w\<lparr>hidden_scan_on := False\<rparr>)) < WLAN_RESCAN_LIMIT" by simp
    from bounded_do_scan[OF this] True False show ?thesis
      by (simp add: scan_results_fallback_def)
  next
    case lim: False
    have b: "scan_count_bounded (do_connect_failed WLAN_REASON_NETWORK_NOT_FOUND w)"
      using assms by (simp add: scan_count_bounded_def)
    from bounded_request_reconnect[OF b] b lim False show ?thesis
      by (simp add: scan_results_fallback_def Let_def)
  qed
qed

lemma bounded_handle_scan_results:
  assumes "scan_count_bounded w"
  shows "scan_count_bounded (handle_scan_results drv w)"
proof -
  define w1 where "w1 = w\<lparr>sta_state := CM_STA_ASSOCIATING\<rparr>"
  have b1: "scan_count_bounded w1" using assms by (simp add: w1_def scan_count_bounded_def)
  obtain best chan_list where
    sel: "select_best_ap drv w1 (net_at w (cur_network_idx w)) (scan_result_list drv) None [] =
            (best, chan_list)" by force
  show ?thesis
  proof (cases best)
    case None
    show ?thesis
    proof (cases "chan_list = []")
      case True
      with None sel bounded_fallback[OF b1, of drv] show ?thesis
        by (simp add: handle_scan_results_def Let_def w1_def)
    next
      case False
      with None sel b1 show ?thesis
        by (simp add: handle_scan_results_def Let_def w1_def scan_count_bounded_def)
    qed
  next
    case (Some best_ap)
    define w2 where "w2 = update_network_params (cur_network_idx w) best_ap (w1\<lparr>same_ess := False\<rparr>)"
    obtain ret w3 where sa: "start_association drv (cur_network_idx w) best_ap w2 = (ret, w3)"
      by force
    have "scan_count w3 =
            scan_count (snd (start_association drv (cur_network_idx w) best_ap w2))"
      by (simp only: sa snd_conv)
    also have "\<dots> = scan_count w2" by (rule sc_assoc)
    also have "\<dots> = scan_count w" by (simp add: w2_def w1_def)
    finally have "scan_count w3 = scan_count w" .
    then have b3: "scan_count_bounded w3" using assms by (simp add: scan_count_bounded_def)
    from Some sel sa b3 bounded_fallback[OF b3, of drv] b1 show ?thesis
      by (simp add: handle_scan_results_def Let_def w1_def w2_def scan_count_bounded_def)
  qed
qed

lemma bounded_scan_result_event:
  assumes "scan_count_bounded w"
  shows "scan_count_bounded (fst (wlcm_process_scan_result_event drv w ok nxt))"
  using assms bounded_handle_scan_results[OF assms, of drv]
  by (simp add: wlcm_process_scan_result_event_def Let_def scan_count_bounded_def)

lemma bounded_association_event:
  assumes "scan_count_bounded w"
  shows "scan_count_bounded (fst (wlcm_process_association_event drv w ok nxt))"
proof -
  have b: "scan_count_bounded (do_connect_failed WLAN_REASON_NETWORK_NOT_FOUND w)"
    using assms by (simp add: scan_count_bounded_def)
  have s: "unat (scan_count w) < WLAN_RESCAN_LIMIT \<Longrightarrow> scan_count_bounded (do_scan drv w)"
    by (rule bounded_do_scan)
  have z: "scan_count_bounded (w\<lparr>sta_state := CM_STA_ASSOCIATED, scan_count := 0\<rparr>)"
    by (simp add: scan_count_bounded_def)
  from assms b s z bounded_request_reconnect[OF b, of drv] show ?thesis
    by (simp add: wlcm_process_association_event_def Let_def)
qed

lemma bounded_request_scan:
  "scan_count_bounded w \<Longrightarrow> scan_count_bounded (fst (wlcm_request_scan drv w p nxt))"
  by (simp add: wlcm_request_scan_def Let_def scan_count_bounded_def)

lemma bounded_request_disconnect:
  "scan_count_bounded w \<Longrightarrow> scan_count_bounded (fst (wlcm_request_disconnect drv w nxt))"
  by (simp add: wlcm_request_disconnect_def Let_def scan_count_bounded_def case_prod_beta
        WLAN_RESCAN_LIMIT_def)

lemma sc_hs_int [simp]:
  "scan_count (snd (wlan_send_host_sleep_int drv w c k)) = scan_count w"
  by (simp add: wlan_send_host_sleep_int_def Let_def)

lemma sc_hsasc [simp]:
  "scan_count (wlan_host_sleep_and_sleep_confirm drv w) = scan_count w"
  by (simp add: hsasc_unfold)

lemma sc_ieeeps_step [simp]: "scan_count (fst (ieeeps_step drv w e)) = scan_count w"
  by (cases "ieeeps_state w") (simp_all add: ieeeps_step_def Let_def)

lemma sc_ieeeps_sm [simp]: "scan_count (wlan_ieeeps_sm drv w e) = scan_count w"
proof (induction drv w e rule: wlan_ieeeps_sm.induct)
  case (1 drv w event)
  obtain w1 ns where s: "ieeeps_step drv w event = (w1, ns)" by force
  then have f: "scan_count w1 = scan_count w"
    using sc_ieeeps_step[of drv w event] by simp
  show ?case
  proof (cases "ieeeps_state w \<noteq> ns")
    case True
    from 1[OF refl s[symmetric] True] True s f show ?thesis
      by (subst wlan_ieeeps_sm.simps) simp
  next
    case False
    with s f show ?thesis by (subst wlan_ieeeps_sm.simps) simp
  qed
qed

lemma sc_deepsleepps_step [simp]: "scan_count (fst (deepsleepps_step w e)) = scan_count w"
  by (cases "deepsleepps_state w")
     (simp_all add: deepsleepps_step_def wlan_send_sleep_confirm_def Let_def)

lemma sc_deepsleepps_sm [simp]: "scan_count (wlan_deepsleepps_sm w e) = scan_count w"
proof (induction w e rule: wlan_deepsleepps_sm.induct)
  case (1 w event)
  obtain w1 ns where s: "deepsleepps_step w event = (w1, ns)" by force
  then have f: "scan_count w1 = scan_count w"
    using sc_deepsleepps_step[of w event] by simp
  show ?case
  proof (cases "deepsleepps_state w \<noteq> ns")
    case True
    from 1[OF refl s[symmetric] True] True s f show ?thesis
      by (subst wlan_deepsleepps_sm.simps) simp
  next
    case False
    with s f show ?thesis by (subst wlan_deepsleepps_sm.simps) simp
  qed
qed

lemma bounded_handle_message:
  assumes "scan_count_bounded w"
  shows "scan_count_bounded (fst (handle_message drv w msg))"
proof (cases msg)
  case (CM_STA_USER_REQUEST_CONNECT data)
  have "scan_count_bounded (w\<lparr>pending_assoc_request := False\<rparr>)"
    using assms by (simp add: scan_count_bounded_def)
  from bounded_request_connect[OF this, of drv data] assms CM_STA_USER_REQUEST_CONNECT
  show ?thesis by (simp add: handle_message_def Let_def scan_count_bounded_def)
next
  case CM_STA_USER_REQUEST_DISCONNECT
  with bounded_request_disconnect[OF assms] show ?thesis by (simp add: handle_message_def)
next
  case (CM_STA_USER_REQUEST_SCAN p)
  with bounded_request_scan[OF assms] show ?thesis by (simp add: handle_message_def)
next
  case (WIFI_EVENT_SCAN_RESULT ok)
  with bounded_scan_result_event[OF assms] show ?thesis by (simp add: handle_message_def)
next
  case (WIFI_EVENT_ASSOCIATION ok)
  with bounded_association_event[OF assms] show ?thesis by (simp add: handle_message_def)
next
  case WIFI_EVENT_AWAKE
  with assms show ?thesis
    by (simp add: handle_message_def wlcm_process_awake_event_def scan_count_bounded_def)
qed (use assms in \<open>simp_all add: handle_message_def scan_count_bounded_def\<close>)

lemma sc_do_start [simp]: "scan_count (snd (do_start drv i w)) = scan_count w"
  by (simp add: do_start_def Let_def)

lemma sc_do_stop [simp]: "scan_count (snd (do_stop drv i w)) = scan_count w"
  by (simp add: do_stop_def Let_def)

lemma bounded_uap_state_machine:
  assumes "scan_count_bounded w"
  shows "scan_count_bounded (fst (uap_state_machine drv w msg))"
  using assms
  by (cases msg)
     (simp_all add: uap_state_machine_def Let_def scan_count_bounded_def)

lemma bounded_cm_main_iter:
  assumes "scan_count_bounded w"
  shows "scan_count_bounded (snd (cm_main_iter drv w recv))"
proof (cases recv)
  case None
  with assms show ?thesis by (simp add: cm_main_iter_def scan_count_bounded_def)
next
  case (Some msg)
  from bounded_handle_message[OF assms, of drv msg] bounded_uap_state_machine[OF assms, of drv msg]
    assms Some
  show ?thesis
    by (simp add: cm_main_iter_def Let_def case_prod_beta scan_count_bounded_def)
qed

lemma bounded_cm_main_run:
  "scan_count_bounded w \<Longrightarrow> scan_count_bounded (cm_main_run w msgs)"
proof (induction msgs arbitrary: w)
  case Nil
  then show ?case by simp
next
  case (Cons m msgs)
  obtain drv recv where m: "m = (drv, recv)" by force
  obtain go w1 where it: "cm_main_iter drv w recv = (go, w1)" by force
  from bounded_cm_main_iter[OF Cons.prems, of drv recv] it have b: "scan_count_bounded w1" by simp
  show ?case
  proof (cases go)
    case True
    with Cons.IH[OF b] m it show ?thesis by simp
  next
    case False
    with b m it show ?thesis by simp
  qed
qed

lemma rescan_step:
  assumes "no_match_found drv w" "\<not> stop_request w" "sta_state w = CM_STA_SCANNING"
    "\<not> roam_reassoc w" "unat (scan_count w) < WLAN_RESCAN_LIMIT"
  shows "sta_state (snd (cm_main_iter drv w (Some (WIFI_EVENT_SCAN_RESULT ok)))) = CM_STA_SCANNING \<and>
         new_actions w (snd (cm_main_iter drv w (Some (WIFI_EVENT_SCAN_RESULT ok)))) =
           WIFI_SEND_SCAN_CMD False #
           (if scan_cmd_ok drv then [] else [WLCMGR_SEND_MSG_SCAN_RESULT_FAILURE]) @
           [OS_SEMAPHORE_PUT_SCAN_LOCK] \<and>
         scan_count (snd (cm_main_iter drv w (Some (WIFI_EVENT_SCAN_RESULT ok)))) =
           (if scan_cmd_ok drv then scan_count w + 1 else scan_count w)"
  using assms
  by (simp add: no_match_found_def cm_main_iter_def is_uap_msg_def handle_message_def
        wlcm_process_scan_result_event_def handle_scan_results_def scan_results_fallback_def
        do_scan_def release_scan_lock_def emit_def new_actions_def Let_def)

lemma give_up_step:
  assumes "no_match_found drv w" "\<not> stop_request w" "sta_state w = CM_STA_SCANNING"
    "\<not> roam_reassoc w" "\<not> unat (scan_count w) < WLAN_RESCAN_LIMIT" "\<not> reassoc_control w"
  shows "sta_state (snd (cm_main_iter drv w (Some (WIFI_EVENT_SCAN_RESULT ok)))) = CM_STA_IDLE \<and>
         new_actions w (snd (cm_main_iter drv w (Some (WIFI_EVENT_SCAN_RESULT ok)))) =
           [CONNECTION_EVENT WLAN_REASON_NETWORK_NOT_FOUND, OS_SEMAPHORE_PUT_SCAN_LOCK] \<and>
         scan_count (snd (cm_main_iter drv w (Some (WIFI_EVENT_SCAN_RESULT ok)))) = scan_count w"
  using assms
  by (simp add: no_match_found_def cm_main_iter_def is_uap_msg_def handle_message_def
        wlcm_process_scan_result_event_def handle_scan_results_def scan_results_fallback_def
        do_connect_failed_def release_scan_lock_def emit_def new_actions_def Let_def)


lemma give_up_event:
  assumes "no_match_found drv w" "\<not> stop_request w" "sta_state w = CM_STA_SCANNING"
    "\<not> roam_reassoc w" "\<not> unat (scan_count w) < WLAN_RESCAN_LIMIT"
  shows "hd (new_actions w (snd (cm_main_iter drv w (Some (WIFI_EVENT_SCAN_RESULT ok))))) =
           CONNECTION_EVENT WLAN_REASON_NETWORK_NOT_FOUND"
  using assms
  by (simp add: no_match_found_def cm_main_iter_def is_uap_msg_def handle_message_def
        wlcm_process_scan_result_event_def handle_scan_results_def scan_results_fallback_def
        do_connect_failed_def release_scan_lock_def emit_def new_actions_def Let_def
        wlcm_request_reconnect_def wlcm_request_connect_def do_connect_def do_scan_def
        wlan_disconnect_def case_prod_beta)

text \<open>
  Claim C2, as amended. \<^verbatim>\<open>do_connect\<close> on a station profile leaves \<^verbatim>\<open>scan_count\<close> at 1 when
  the scan command was accepted and at 0 otherwise; \<^verbatim>\<open>do_scan\<close> adds one exactly when the
  scan command is accepted, and the directed scan of hidden-SSID channels does not count.
  \<^verbatim>\<open>scan_count\<close> stays at most \<^verbatim>\<open>WLAN_RESCAN_LIMIT\<close> under every run of the dispatcher. When
  the results of a connect scan hold no match and no hidden-SSID channel, and no roaming
  reassociation is in progress, the manager scans again if \<^verbatim>\<open>scan_count\<close> is below the
  limit; otherwise it emits \<^verbatim>\<open>WLAN_REASON_NETWORK_NOT_FOUND\<close> and, unless reassociation
  control is on (then a reconnect is requested), the STA state is IDLE afterwards.
\<close>

theorem rescan_policy:
  "(role (net_at w i) = WLAN_BSS_ROLE_STA \<longrightarrow>
      scan_count (snd (do_connect drv w i)) = (if scan_cmd_ok drv then 1 else 0)) \<and>
   scan_count (do_scan drv w) = (if scan_cmd_ok drv then scan_count w + 1 else scan_count w) \<and>
   scan_count (do_hidden_scan drv w chans) = scan_count w \<and>
   (scan_count_bounded w \<longrightarrow> scan_count_bounded (cm_main_run w msgs)) \<and>
   (no_match_found drv w \<and> \<not> stop_request w \<and> sta_state w = CM_STA_SCANNING \<and>
    \<not> roam_reassoc w \<longrightarrow>
      (unat (scan_count w) < WLAN_RESCAN_LIMIT \<longrightarrow>
         sta_state (snd (cm_main_iter drv w (Some (WIFI_EVENT_SCAN_RESULT ok)))) =
           CM_STA_SCANNING \<and>
         new_actions w (snd (cm_main_iter drv w (Some (WIFI_EVENT_SCAN_RESULT ok)))) =
           WIFI_SEND_SCAN_CMD False #
           (if scan_cmd_ok drv then [] else [WLCMGR_SEND_MSG_SCAN_RESULT_FAILURE]) @
           [OS_SEMAPHORE_PUT_SCAN_LOCK] \<and>
         scan_count (snd (cm_main_iter drv w (Some (WIFI_EVENT_SCAN_RESULT ok)))) =
           (if scan_cmd_ok drv then scan_count w + 1 else scan_count w)) \<and>
      (\<not> unat (scan_count w) < WLAN_RESCAN_LIMIT \<longrightarrow>
         hd (new_actions w (snd (cm_main_iter drv w (Some (WIFI_EVENT_SCAN_RESULT ok))))) =
           CONNECTION_EVENT WLAN_REASON_NETWORK_NOT_FOUND \<and>
         (\<not> reassoc_control w \<longrightarrow>
            sta_state (snd (cm_main_iter drv w (Some (WIFI_EVENT_SCAN_RESULT ok)))) =
              CM_STA_IDLE \<and>
            new_actions w (snd (cm_main_iter drv w (Some (WIFI_EVENT_SCAN_RESULT ok)))) =
              [CONNECTION_EVENT WLAN_REASON_NETWORK_NOT_FOUND, OS_SEMAPHORE_PUT_SCAN_LOCK] \<and>
            scan_count (snd (cm_main_iter drv w (Some (WIFI_EVENT_SCAN_RESULT ok)))) =
              scan_count w)))"
proof -
  have 1: "role (net_at w i) = WLAN_BSS_ROLE_STA \<longrightarrow>
      scan_count (snd (do_connect drv w i)) = (if scan_cmd_ok drv then 1 else 0)"
    by (simp add: sc_do_connect)
  have 2: "scan_count (do_scan drv w) =
      (if scan_cmd_ok drv then scan_count w + 1 else scan_count w)"
    by (rule sc_do_scan)
  have 3: "scan_count (do_hidden_scan drv w chans) = scan_count w"
    by (rule sc_do_hidden_scan)
  have 4: "scan_count_bounded w \<longrightarrow> scan_count_bounded (cm_main_run w msgs)"
    using bounded_cm_main_run by blast
  from 1 2 3 4 rescan_step[of drv w ok] give_up_step[of drv w ok] give_up_event[of drv w ok]
  show ?thesis by blast
qed

theorem rescan_policy_witness:
  "scan_count (snd (do_connect drv0 (scanning_wlan open_profile) 0)) = 1 \<and>
   scan_count_bounded (cm_main_run (scanning_wlan open_profile)
      [(drv0, Some (WIFI_EVENT_SCAN_RESULT True)), (drv0, Some (WIFI_EVENT_SCAN_RESULT True))]) \<and>
   sta_state (snd (cm_main_iter drv0 (scanning_wlan open_profile)
      (Some (WIFI_EVENT_SCAN_RESULT True)))) = CM_STA_SCANNING \<and>
   scan_count (snd (cm_main_iter drv0 (scanning_wlan open_profile)
      (Some (WIFI_EVENT_SCAN_RESULT True)))) = 2 \<and>
   sta_state (snd (cm_main_iter drv0 ((scanning_wlan open_profile)\<lparr>scan_count := 5\<rparr>)
      (Some (WIFI_EVENT_SCAN_RESULT True)))) = CM_STA_IDLE \<and>
   new_actions ((scanning_wlan open_profile)\<lparr>scan_count := 5\<rparr>)
     (snd (cm_main_iter drv0 ((scanning_wlan open_profile)\<lparr>scan_count := 5\<rparr>)
        (Some (WIFI_EVENT_SCAN_RESULT True)))) =
     [CONNECTION_EVENT WLAN_REASON_NETWORK_NOT_FOUND, OS_SEMAPHORE_PUT_SCAN_LOCK]"
proof -
  have a: "role (net_at (scanning_wlan open_profile) 0) = WLAN_BSS_ROLE_STA" by code_simp
  have b: "scan_count_bounded (scanning_wlan open_profile)" by code_simp
  have c: "no_match_found drv0 (scanning_wlan open_profile) \<and>
           \<not> stop_request (scanning_wlan open_profile) \<and>
           sta_state (scanning_wlan open_profile) = CM_STA_SCANNING \<and>
           \<not> roam_reassoc (scanning_wlan open_profile)" by code_simp
  have d: "unat (scan_count (scanning_wlan open_profile)) < WLAN_RESCAN_LIMIT" by code_simp
  have e: "scan_cmd_ok drv0" by code_simp
  have f: "scan_count (scanning_wlan open_profile) = 1" by code_simp
  have c': "no_match_found drv0 ((scanning_wlan open_profile)\<lparr>scan_count := 5\<rparr>) \<and>
           \<not> stop_request ((scanning_wlan open_profile)\<lparr>scan_count := 5\<rparr>) \<and>
           sta_state ((scanning_wlan open_profile)\<lparr>scan_count := 5\<rparr>) = CM_STA_SCANNING \<and>
           \<not> roam_reassoc ((scanning_wlan open_profile)\<lparr>scan_count := 5\<rparr>)" by code_simp
  have d': "\<not> unat (scan_count ((scanning_wlan open_profile)\<lparr>scan_count := 5\<rparr>))
              < WLAN_RESCAN_LIMIT" by code_simp
  have g': "\<not> reassoc_control ((scanning_wlan open_profile)\<lparr>scan_count := 5\<rparr>)" by code_simp
  show ?thesis
    using a b c d e f c' d' g'
      rescan_policy [where w = "scanning_wlan open_profile" and i = 0 and drv = drv0
        and ok = True
        and msgs = "[(drv0, Some (WIFI_EVENT_SCAN_RESULT True)),
                     (drv0, Some (WIFI_EVENT_SCAN_RESULT True))]"]
      rescan_policy [where w = "(scanning_wlan open_profile)\<lparr>scan_count := 5\<rparr>"
        and drv = drv0 and ok = True]
    by simp
qed

text \<open>
  Claim C2 as stated fails. The directed scan of hidden-SSID channels is issued without
  \<^verbatim>\<open>scan_count\<close> being incremented; and with reassociation control on (the setting
  \<^verbatim>\<open>wlan_start\<close> makes), a scan without match at the rescan limit emits
  \<^verbatim>\<open>WLAN_REASON_NETWORK_NOT_FOUND\<close> and starts the next attempt at once, so that the STA
  state is SCANNING afterwards, not IDLE.
\<close>

theorem hidden_scan_not_counted:
  "trace (snd (cm_main_iter (drv_results [Some hidden_ap]) (scanning_wlan open_profile)
      (Some (WIFI_EVENT_SCAN_RESULT True)))) =
     [WIFI_SEND_SCAN_CMD True, OS_SEMAPHORE_PUT_SCAN_LOCK] \<and>
   scan_count (scanning_wlan open_profile) = 1 \<and>
   scan_count (snd (cm_main_iter (drv_results [Some hidden_ap]) (scanning_wlan open_profile)
      (Some (WIFI_EVENT_SCAN_RESULT True)))) = 1 \<and>
   no_match_found drv0 ((scanning_wlan open_profile)\<lparr>scan_count := 5, reassoc_control := True\<rparr>) \<and>
   trace (snd (cm_main_iter drv0
      ((scanning_wlan open_profile)\<lparr>scan_count := 5, reassoc_control := True\<rparr>)
      (Some (WIFI_EVENT_SCAN_RESULT True)))) =
     [CONNECTION_EVENT WLAN_REASON_NETWORK_NOT_FOUND, WIFI_SET_PMFCFG False False,
      WIFI_SEND_SCAN_CMD False, OS_SEMAPHORE_PUT_SCAN_LOCK] \<and>
   sta_state (snd (cm_main_iter drv0
      ((scanning_wlan open_profile)\<lparr>scan_count := 5, reassoc_control := True\<rparr>)
      (Some (WIFI_EVENT_SCAN_RESULT True)))) = CM_STA_SCANNING"
  by code_simp

section \<open>Properties of WEP profiles\<close>

lemma sec_type_slot_contents [simp]:
  "sec_type (security (slot_contents (fix_type_and_caps n))) = sec_type (security n)"
  by (simp add: slot_contents_def fix_type_and_caps_def Let_def)












end
